theory Spec2Isabelle
  imports Complex_Main
begin

section \<open>Decoded JSON values\<close>

text \<open>
  Both scripts work on values produced by \<^verbatim>\<open>JSON.parse\<close>. A decoded value is
  one of the constructors below; \<open>JUndefined\<close> is what reading a missing property gives.
  An object is the list of its own properties, in key order, each key once. Numbers are
  finite JSON numbers, kept as rationals (rounding to binary64 is not part of the model).
  Strings are byte strings, the UTF-8 encoding of the text. The string methods are
  modelled on ASCII text, where a byte is a character; the keyword tests of
  \<^verbatim>\<open>extractType\<close> are modelled on any UTF-8 text.
\<close>

datatype jsvalue =
    JUndefined
  | JNull
  | JBool bool
  | JNum rat
  | JStr string
  | JArr "jsvalue list"
  | JObj "(string \<times> jsvalue) list"

type_synonym jsobj = "(string \<times> jsvalue) list"

text \<open>JavaScript truthiness: \<^verbatim>\<open>undefined\<close>, \<^verbatim>\<open>null\<close>, \<^verbatim>\<open>false\<close>,
  \<^verbatim>\<open>0\<close> and the empty string are falsy; arrays and objects are always truthy.\<close>

fun truthy :: "jsvalue \<Rightarrow> bool" where
  "truthy JUndefined = False"
| "truthy JNull = False"
| "truthy (JBool b) = b"
| "truthy (JNum n) = (n \<noteq> 0)"
| "truthy (JStr s) = (s \<noteq> [])"
| "truthy (JArr xs) = True"
| "truthy (JObj kvs) = True"

text \<open>\<^verbatim>\<open>o.k\<close> on an object: the own property, or \<^verbatim>\<open>undefined\<close>.\<close>

definition obj_get :: "jsobj \<Rightarrow> string \<Rightarrow> jsvalue" where
  "obj_get kvs k = (case map_of kvs k of Some v \<Rightarrow> v | None \<Rightarrow> JUndefined)"

text \<open>\<^verbatim>\<open>v.k\<close> on a truthy decoded value, for the property names the probes read
  (\<^verbatim>\<open>jobs\<close>): objects give their own property, every other truthy value (number,
  string, boolean, array) has no such property.\<close>

fun get_prop :: "jsvalue \<Rightarrow> string \<Rightarrow> jsvalue" where
  "get_prop (JObj kvs) k = obj_get kvs k"
| "get_prop v k = JUndefined"

fun isArray :: "jsvalue \<Rightarrow> bool" where
  "isArray (JArr xs) = True"
| "isArray v = False"

section \<open>Slug discoverer: requests and probes\<close>

text \<open>
  What the network does to one \<^verbatim>\<open>http(s).get\<close>: the response ends with a status
  code and the accumulated body text, the request emits \<^verbatim>\<open>error\<close> with a message,
  or it emits \<^verbatim>\<open>timeout\<close> (no response within 5000 ms).
\<close>

datatype http_event =
    Responded nat string
  | NetError string
  | Timeout

record request_result =
  status :: "nat option"
  data :: jsvalue
  error :: "string option"

text \<open>\<^verbatim>\<open>makeRequest\<close>: the promise never rejects; it resolves with one of four records.
  \<open>json_parse\<close> stands for \<^verbatim>\<open>JSON.parse\<close> (\<open>None\<close> when it throws).\<close>

definition makeRequest :: "(string \<Rightarrow> jsvalue option) \<Rightarrow> (string \<Rightarrow> http_event) \<Rightarrow> string \<Rightarrow> request_result" where
  "makeRequest json_parse net url =
     (case net url of
        Responded code body \<Rightarrow>
          (case json_parse body of
             Some parsed \<Rightarrow> \<lparr>status = Some code, data = parsed, error = None\<rparr>
           | None \<Rightarrow> \<lparr>status = Some code, data = JNull, error = Some ''Invalid JSON''\<rparr>)
      | NetError msg \<Rightarrow> \<lparr>status = None, data = JNull, error = Some msg\<rparr>
      | Timeout \<Rightarrow> \<lparr>status = None, data = JNull, error = Some ''Timeout''\<rparr>)"

record probe_result =
  found :: bool
  slug :: "string option"

definition greenhouse_url :: "string \<Rightarrow> string" where
  "greenhouse_url s = ''https://boards-api.greenhouse.io/v1/boards/'' @ s @ ''/jobs''"

definition lever_url :: "string \<Rightarrow> string" where
  "lever_url s = ''https://api.lever.co/v0/postings/'' @ s @ ''?mode=json''"

definition probeGreenhouse :: "(string \<Rightarrow> jsvalue option) \<Rightarrow> (string \<Rightarrow> http_event) \<Rightarrow> string \<Rightarrow> probe_result" where
  "probeGreenhouse json_parse net s =
     (let result = makeRequest json_parse net (greenhouse_url s) in
      if status result = Some 200 \<and> truthy (data result) \<and> isArray (get_prop (data result) ''jobs'')
      then \<lparr>found = True, slug = Some s\<rparr>
      else \<lparr>found = False, slug = None\<rparr>)"

definition probeLever :: "(string \<Rightarrow> jsvalue option) \<Rightarrow> (string \<Rightarrow> http_event) \<Rightarrow> string \<Rightarrow> probe_result" where
  "probeLever json_parse net s =
     (let result = makeRequest json_parse net (lever_url s) in
      if status result = Some 200 \<and> isArray (data result)
      then \<lparr>found = True, slug = Some s\<rparr>
      else \<lparr>found = False, slug = None\<rparr>)"

section \<open>Slug discoverer: strings\<close>

text \<open>The string methods and regular expressions of \<^verbatim>\<open>generateSlugCandidates\<close>,
  on ASCII. \<open>is_space\<close> is the class \<^verbatim>\<open>\s\<close> (and what \<^verbatim>\<open>trim\<close> removes):
  space, tab, line feed, vertical tab, form feed, carriage return.\<close>

definition is_space :: "char \<Rightarrow> bool" where
  "is_space c = (c \<in> set [CHR '' '', CHR 0x09, CHR 0x0A, CHR 0x0B, CHR 0x0C, CHR 0x0D])"

definition is_upper :: "char \<Rightarrow> bool" where
  "is_upper c = (c \<in> set ''ABCDEFGHIJKLMNOPQRSTUVWXYZ'')"

definition to_lower :: "char \<Rightarrow> char" where
  "to_lower c =
     (case map_of (zip ''ABCDEFGHIJKLMNOPQRSTUVWXYZ'' ''abcdefghijklmnopqrstuvwxyz'') c of
        Some l \<Rightarrow> l
      | None \<Rightarrow> c)"

definition toLowerCase :: "string \<Rightarrow> string" where
  "toLowerCase s = map to_lower s"

definition trim :: "string \<Rightarrow> string" where
  "trim s = rev (dropWhile is_space (rev (dropWhile is_space s)))"

definition startsWith :: "string \<Rightarrow> string \<Rightarrow> bool" where
  "startsWith s p = (take (length p) s = p)"

definition endsWith :: "string \<Rightarrow> string \<Rightarrow> bool" where
  "endsWith s p = (length p \<le> length s \<and> drop (length s - length p) s = p)"

text \<open>\<^verbatim>\<open>s.replace(p, r)\<close> with a string pattern: the first occurrence only.\<close>

fun replace_first :: "string \<Rightarrow> string \<Rightarrow> string \<Rightarrow> string" where
  "replace_first p r [] = []"
| "replace_first p r (c # cs) =
     (if startsWith (c # cs) p then r @ drop (length p) (c # cs)
      else c # replace_first p r cs)"

text \<open>
  \<^verbatim>\<open>s.replace(/re/g, r)\<close>: the text is scanned from the left; \<open>m\<close> says how many
  characters the expression matches at the start of the remaining text (\<open>None\<close>: no
  match there). A match is replaced and the scan resumes behind it; otherwise one
  character is copied. None of the expressions below matches the empty string.
\<close>

fun gsub :: "(string \<Rightarrow> nat option) \<Rightarrow> string \<Rightarrow> string \<Rightarrow> string" where
  "gsub m r [] = []"
| "gsub m r (c # cs) =
     (case m (c # cs) of
        None \<Rightarrow> c # gsub m r cs
      | Some n \<Rightarrow> if n = 0 then c # gsub m r cs else r @ gsub m r (drop (n - 1) cs))"

text \<open>\<^verbatim>\<open>/[class]+/\<close>: a maximal run of characters of the class.\<close>

definition match_run :: "(char \<Rightarrow> bool) \<Rightarrow> string \<Rightarrow> nat option" where
  "match_run P s = (let n = length (takeWhile P s) in if n = 0 then None else Some n)"

text \<open>\<^verbatim>\<open>/[class]/\<close>: one character of the class.\<close>

definition match_char :: "(char \<Rightarrow> bool) \<Rightarrow> string \<Rightarrow> nat option" where
  "match_char P s = (case s of [] \<Rightarrow> None | c # cs \<Rightarrow> if P c then Some 1 else None)"

text \<open>A literal pattern.\<close>

definition match_lit :: "string \<Rightarrow> string \<Rightarrow> nat option" where
  "match_lit p s = (if p \<noteq> [] \<and> startsWith s p then Some (length p) else None)"

text \<open>\<^verbatim>\<open>/\s+x\s+/\<close> (\<open>need = True\<close>) and \<^verbatim>\<open>/\s*x\s*/\<close> (\<open>need = False\<close>):
  the white space on either side is taken greedily; since \<open>x\<close> is not white space, no
  shorter run can match.\<close>

definition match_spaced :: "bool \<Rightarrow> char \<Rightarrow> string \<Rightarrow> nat option" where
  "match_spaced need x s =
     (let lead = takeWhile is_space s; rest = dropWhile is_space s in
      case rest of
        [] \<Rightarrow> None
      | y # rest' \<Rightarrow>
          (let trail = takeWhile is_space rest' in
           if y = x \<and> (if need then lead \<noteq> [] \<and> trail \<noteq> [] else True)
           then Some (length lead + 1 + length trail)
           else None))"

text \<open>\<^verbatim>\<open>/\(([A-Z]+(?:\s+[A-Z]+)*)\)/\<close>: \<open>acronym_tail\<close> reads what follows the first
  run of capitals and returns the rest of the captured group; \<open>acronym_at\<close> matches at
  the start of the text; \<open>acronym_match\<close> is the leftmost match, as \<^verbatim>\<open>name.match\<close>
  finds it, and returns the group.\<close>

function acronym_tail :: "string \<Rightarrow> string option" where
  "acronym_tail s =
     (case s of
        [] \<Rightarrow> None
      | c # cs \<Rightarrow>
          if c = CHR '')'' then Some []
          else if is_space c \<and> takeWhile is_upper (dropWhile is_space cs) \<noteq> []
          then map_option (\<lambda>t. takeWhile is_space (c # cs) @ takeWhile is_upper (dropWhile is_space cs) @ t)
                 (acronym_tail (dropWhile is_upper (dropWhile is_space cs)))
          else None)"
  by pat_completeness auto
termination
proof (relation "measure length")
  show "wf (measure length)" by simp
next
  fix s :: string and c cs
  assume "s = c # cs"
  have "length (dropWhile is_upper (dropWhile is_space cs)) \<le> length cs"
    by (rule order_trans [OF length_dropWhile_le length_dropWhile_le])
  then show "(dropWhile is_upper (dropWhile is_space cs), s) \<in> measure length"
    using \<open>s = c # cs\<close> by simp
qed

declare acronym_tail.simps [simp del]

definition acronym_at :: "string \<Rightarrow> string option" where
  "acronym_at s =
     (case s of
        [] \<Rightarrow> None
      | c # cs \<Rightarrow>
          if c = CHR ''('' \<and> takeWhile is_upper cs \<noteq> []
          then map_option (\<lambda>t. takeWhile is_upper cs @ t) (acronym_tail (dropWhile is_upper cs))
          else None)"

fun acronym_match :: "string \<Rightarrow> string option" where
  "acronym_match [] = None"
| "acronym_match (c # cs) =
     (case acronym_at (c # cs) of Some g \<Rightarrow> Some g | None \<Rightarrow> acronym_match cs)"

text \<open>A JavaScript \<^verbatim>\<open>Set\<close> keeps its elements in insertion order; adding an element
  that is already there changes nothing.\<close>

definition set_add :: "'a list \<Rightarrow> 'a \<Rightarrow> 'a list" where
  "set_add xs x = (if x \<in> set xs then xs else xs @ [x])"

text \<open>\<^verbatim>\<open>Array.prototype.sort\<close> with a comparator is stable: elements the comparator
  does not separate keep their order.\<close>

fun insert_by :: "('a \<Rightarrow> 'a \<Rightarrow> int) \<Rightarrow> 'a \<Rightarrow> 'a list \<Rightarrow> 'a list" where
  "insert_by cmp x [] = [x]"
| "insert_by cmp x (y # ys) = (if cmp x y \<le> 0 then x # y # ys else y # insert_by cmp x ys)"

definition stable_sort :: "('a \<Rightarrow> 'a \<Rightarrow> int) \<Rightarrow> 'a list \<Rightarrow> 'a list" where
  "stable_sort cmp xs = foldr (insert_by cmp) xs []"

definition hyphens :: "string \<Rightarrow> nat" where
  "hyphens s = length (filter (\<lambda>c. c = CHR ''-'') s)"

definition slug_cmp :: "string \<Rightarrow> string \<Rightarrow> int" where
  "slug_cmp a b =
     (if length a \<noteq> length b then int (length a) - int (length b)
      else int (hyphens a) - int (hyphens b))"

section \<open>Slug discoverer: candidates\<close>

datatype js_error = TypeError

definition suffixes :: "string list" where
  "suffixes = [''inc.'', ''inc'', ''llc'', ''architecture'', ''architects'', ''design'',
               ''group'', ''firm'', ''company'']"

definition baseName_of :: "string \<Rightarrow> string" where
  "baseName_of cleanName =
     (case find (endsWith cleanName) suffixes of
        Some suffix \<Rightarrow> trim (take (length cleanName - length suffix) cleanName)
      | None \<Rightarrow> cleanName)"

definition normalized_of :: "string \<Rightarrow> string" where
  "normalized_of cleanName =
     (let s1 = gsub (match_spaced True CHR ''&'') ''-and-'' cleanName;
          s2 = gsub (match_spaced False CHR ''&'') [] s1;
          s3 = gsub (match_spaced False CHR ''+'') ''-and-'' s2;
          s4 = gsub (match_spaced False CHR ''|'') [] s3;
          s5 = gsub (match_char (\<lambda>c. c \<in> set ''(),.[]'')) [] s4;
          s6 = gsub (match_run is_space) ''-'' s5;
          s7 = gsub (match_run (\<lambda>c. c = CHR ''-'')) ''-'' s6
      in rev (dropWhile (\<lambda>c. c = CHR ''-'') (rev (dropWhile (\<lambda>c. c = CHR ''-'') s7))))"

definition is_delim :: "char \<Rightarrow> bool" where
  "is_delim c = (is_space c \<or> c \<in> set ''&|+,()'')"

text \<open>
  \<^verbatim>\<open>generateSlugCandidates(firm)\<close>. \<open>url_hostname\<close> stands for
  \<^verbatim>\<open>new URL(website).hostname\<close> (\<open>None\<close> when the constructor throws, which the
  code catches). A \<^verbatim>\<open>name\<close> that is not a string makes \<^verbatim>\<open>name.toLowerCase()\<close>
  throw a TypeError, which nothing in the function catches.
\<close>

definition generateSlugCandidates :: "(jsvalue \<Rightarrow> string option) \<Rightarrow> jsobj \<Rightarrow> js_error + string list" where
  "generateSlugCandidates url_hostname firm =
     (let name = obj_get firm ''name'';
          website = obj_get firm ''website'';
          c0 = (if truthy website then
                  (case url_hostname website of
                     Some hostname \<Rightarrow>
                       (let domain = takeWhile (\<lambda>c. c \<noteq> CHR ''.'') (replace_first ''www.'' [] hostname)
                        in if domain \<noteq> [] then set_add [] (toLowerCase domain) else [])
                   | None \<Rightarrow> [])
                else [])
      in case name of
           JStr nm \<Rightarrow>
             (let cleanName = trim (toLowerCase nm);
                  baseName = baseName_of cleanName;
                  c1 = (case acronym_match nm of
                          Some g \<Rightarrow> set_add c0 (gsub (match_run is_space) [] (toLowerCase g))
                        | None \<Rightarrow> c0);
                  c2 = (if baseName \<noteq> cleanName then set_add c1 baseName else c1);
                  normalized = normalized_of cleanName;
                  c3 = set_add c2 normalized;
                  c4 = set_add c3 (gsub (match_lit ''-'') [] normalized);
                  firstWord = takeWhile (\<lambda>c. \<not> is_delim c) cleanName;
                  c5 = (if firstWord \<noteq> [] \<and> 1 < length firstWord then set_add c4 firstWord else c4);
                  withAnd = gsub (match_lit ''-and-'') ''-and-'' (gsub (match_lit ''and'') ''and'' normalized);
                  c6 = set_add c5 withAnd
              in Inr (stable_sort slug_cmp (filter (\<lambda>s. s \<noteq> [] \<and> 0 < length s) c6)))
         | _ \<Rightarrow> Inl TypeError)"

text \<open>A firm without a website never reaches \<^verbatim>\<open>new URL\<close>; \<open>no_hostname\<close> is the
  decoder that rejects every value.\<close>

definition no_hostname :: "jsvalue \<Rightarrow> string option" where
  "no_hostname w = None"


section \<open>Slug discoverer: driver\<close>

text \<open>\<^verbatim>\<open>firm.k = v\<close>: an existing property is overwritten in place, a new one is
  added behind the others.\<close>

definition set_prop :: "jsobj \<Rightarrow> string \<Rightarrow> jsvalue \<Rightarrow> jsobj" where
  "set_prop kvs k v =
     (if k \<in> set (map fst kvs) then map (\<lambda>(k', v'). if k' = k then (k', v) else (k', v')) kvs
      else kvs @ [(k, v)])"

record firm_result =
  greenhouse :: bool
  lever :: bool

text \<open>The loop over the candidates of \<^verbatim>\<open>processFirm\<close>; the state is the firm object
  and the two flags \<^verbatim>\<open>foundGreenhouse\<close> and \<^verbatim>\<open>foundLever\<close>.\<close>

fun probe_candidates ::
  "(string \<Rightarrow> jsvalue option) \<Rightarrow> (string \<Rightarrow> http_event) \<Rightarrow> string list
     \<Rightarrow> jsobj \<times> bool \<times> bool \<Rightarrow> jsobj \<times> bool \<times> bool" where
  "probe_candidates json_parse net [] st = st"
| "probe_candidates json_parse net (candidate # rest) (firm, foundGreenhouse, foundLever) =
     (let (firm1, foundGreenhouse1) =
            (if \<not> foundGreenhouse \<and> found (probeGreenhouse json_parse net candidate)
             then (set_prop firm ''greenhouse_slug'' (JStr candidate), True)
             else (firm, foundGreenhouse));
          (firm2, foundLever1) =
            (if \<not> foundLever \<and> found (probeLever json_parse net candidate)
             then (set_prop firm1 ''lever_slug'' (JStr candidate), True)
             else (firm1, foundLever))
      in if foundGreenhouse1 \<and> foundLever1 then (firm2, foundGreenhouse1, foundLever1)
         else probe_candidates json_parse net rest (firm2, foundGreenhouse1, foundLever1))"

text \<open>\<^verbatim>\<open>processFirm\<close> returns the mutated firm and the pair of flags. The console
  output is left out.\<close>

definition processFirm ::
  "(string \<Rightarrow> jsvalue option) \<Rightarrow> (string \<Rightarrow> http_event) \<Rightarrow> (jsvalue \<Rightarrow> string option)
     \<Rightarrow> jsobj \<Rightarrow> js_error + (jsobj \<times> firm_result)" where
  "processFirm json_parse net url_hostname firm =
     (case generateSlugCandidates url_hostname firm of
        Inl e \<Rightarrow> Inl e
      | Inr candidates \<Rightarrow>
          (let (firm1, foundGreenhouse, foundLever) =
                 probe_candidates json_parse net candidates (firm, False, False);
               firm2 = (if \<not> foundGreenhouse \<and> \<not> foundLever \<and> 0 < length candidates
                        then set_prop firm1 ''greenhouse_slug'' (JStr (hd candidates))
                        else firm1)
           in Inr (firm2, \<lparr>greenhouse = foundGreenhouse, lever = foundLever\<rparr>)))"


record results =
  greenhouse_count :: nat
  lever_count :: nat
  noMatch_count :: nat

text \<open>The body of \<^verbatim>\<open>batchResults.forEach\<close>.\<close>

definition tally :: "results \<Rightarrow> firm_result \<Rightarrow> results" where
  "tally r result =
     (if greenhouse result then r\<lparr>greenhouse_count := greenhouse_count r + 1\<rparr>
      else if lever result then r\<lparr>lever_count := lever_count r + 1\<rparr>
      else r\<lparr>noMatch_count := noMatch_count r + 1\<rparr>)"

definition CONCURRENCY :: nat where
  "CONCURRENCY = 5"

text \<open>\<^verbatim>\<open>Promise.all(batch.map(processFirm))\<close>: the firms of a batch are processed
  concurrently, each touching its own object only; a rejection of any of them rejects
  the whole batch.\<close>

fun process_batch ::
  "(string \<Rightarrow> jsvalue option) \<Rightarrow> (string \<Rightarrow> http_event) \<Rightarrow> (jsvalue \<Rightarrow> string option)
     \<Rightarrow> jsobj list \<Rightarrow> js_error + (jsobj list \<times> firm_result list)" where
  "process_batch json_parse net url_hostname [] = Inr ([], [])"
| "process_batch json_parse net url_hostname (firm # batch) =
     (case processFirm json_parse net url_hostname firm of
        Inl e \<Rightarrow> Inl e
      | Inr (firm', result) \<Rightarrow>
          (case process_batch json_parse net url_hostname batch of
             Inl e \<Rightarrow> Inl e
           | Inr (firms', batchResults) \<Rightarrow> Inr (firm' # firms', result # batchResults)))"

text \<open>The batch loop of the discoverer's \<^verbatim>\<open>main\<close>, on the firms from index \<open>i\<close>
  on: \<open>firms\<close> is what \<^verbatim>\<open>data.slice(i)\<close> holds. The delay between batches is
  left out.\<close>

function discover_batches ::
  "(string \<Rightarrow> jsvalue option) \<Rightarrow> (string \<Rightarrow> http_event) \<Rightarrow> (jsvalue \<Rightarrow> string option)
     \<Rightarrow> jsobj list \<Rightarrow> results \<Rightarrow> js_error + (jsobj list \<times> results)" where
  "discover_batches json_parse net url_hostname firms r =
     (if firms = [] then Inr ([], r)
      else
        (case process_batch json_parse net url_hostname (take CONCURRENCY firms) of
           Inl e \<Rightarrow> Inl e
         | Inr (batch', batchResults) \<Rightarrow>
             (case discover_batches json_parse net url_hostname (drop CONCURRENCY firms)
                     (foldl tally r batchResults) of
                Inl e \<Rightarrow> Inl e
              | Inr (rest', r') \<Rightarrow> Inr (batch' @ rest', r'))))"
  by pat_completeness auto
termination
  by (relation "measure (\<lambda>(json_parse, net, url_hostname, firms, r). length firms)")
     (auto simp: CONCURRENCY_def)

declare discover_batches.simps [simp del]

text \<open>The discoverer's \<^verbatim>\<open>main\<close>, given the decoded firm list \<open>firms\<close> (the
  source's \<^verbatim>\<open>data\<close>): an error ends the process with exit code 1 before anything
  is written; otherwise the mutated list is written back and the three counters are
  printed.\<close>

definition discover_main ::
  "(string \<Rightarrow> jsvalue option) \<Rightarrow> (string \<Rightarrow> http_event) \<Rightarrow> (jsvalue \<Rightarrow> string option)
     \<Rightarrow> jsobj list \<Rightarrow> js_error + (jsobj list \<times> results)" where
  "discover_main json_parse net url_hostname firms =
     discover_batches json_parse net url_hostname firms
       \<lparr>greenhouse_count = 0, lever_count = 0, noMatch_count = 0\<rparr>"

section \<open>Job fetcher: helpers\<close>

text \<open>Decimal text of an integer, as string concatenation with a number gives it.\<close>

function show_nat :: "nat \<Rightarrow> string" where
  "show_nat n =
     (if n < 10 then [''0123456789'' ! n]
      else show_nat (n div 10) @ [''0123456789'' ! (n mod 10)])"
  by pat_completeness auto
termination
  by (relation "measure id") auto

declare show_nat.simps [simp del]

definition show_int :: "int \<Rightarrow> string" where
  "show_int i = (if i < 0 then CHR ''-'' # show_nat (nat (- i)) else show_nat (nat i))"

text \<open>
  \<^verbatim>\<open>timeAgo\<close> reads the clock (\<^verbatim>\<open>new Date()\<close>, here \<open>now\<close>, in milliseconds)
  and decodes its argument with \<^verbatim>\<open>new Date(dateStr)\<close>. \<open>ago_text\<close> is the function
  from the two time values: \<open>past = None\<close> is an invalid date, whose difference is
  \<^verbatim>\<open>NaN\<close>, so that every comparison fails and the last line is reached. One clock
  value stands for all the readings of one run.
\<close>

definition ago_text :: "int \<Rightarrow> int option \<Rightarrow> string" where
  "ago_text now past =
     (case past of
        None \<Rightarrow> ''NaN months ago''
      | Some t \<Rightarrow>
          (let diffMs = now - t; days = diffMs div 86400000 in
           if days = 0 then ''Today''
           else if days = 1 then ''1 day ago''
           else if days < 7 then show_int days @ '' days ago''
           else if days < 14 then ''1 week ago''
           else if days < 30 then show_int (days div 7) @ '' weeks ago''
           else if days < 60 then ''1 month ago''
           else show_int (days div 30) @ '' months ago''))"

definition timeAgo :: "(string \<Rightarrow> int option) \<Rightarrow> int \<Rightarrow> string \<Rightarrow> string" where
  "timeAgo date_parse now dateStr = ago_text now (date_parse dateStr)"

text \<open>
  What \<^verbatim>\<open>fetchWithTimeout\<close> and \<^verbatim>\<open>resp.json()\<close> give: no response at all (the
  fetch rejected or was aborted after 8000 ms, the helper returns \<^verbatim>\<open>null\<close>), or a
  response with its status code and its body. The body does not decode (\<open>Unparsable\<close>),
  decodes to something without the array the caller looks for (\<open>OtherShape\<close>), or holds
  that array (\<open>Items\<close>). The postings in the array are typed records of the fields the
  code reads, as the providers document them; \<open>None\<close> is an absent or \<^verbatim>\<open>null\<close>
  field.
\<close>

datatype 'a decoded = Unparsable | OtherShape | Items "'a list"

datatype 'a fetch_outcome = NoResponse | Response nat "'a decoded"

text \<open>\<^verbatim>\<open>resp.ok\<close>: a status from 200 to 299.\<close>

definition resp_ok :: "nat \<Rightarrow> bool" where
  "resp_ok code = (200 \<le> code \<and> code \<le> 299)"

text \<open>\<^verbatim>\<open>x || d\<close> and the truth value of an optional string field.\<close>

definition str_or :: "string option \<Rightarrow> string \<Rightarrow> string" where
  "str_or x d = (case x of None \<Rightarrow> d | Some s \<Rightarrow> if s = [] then d else s)"

definition str_truthy :: "string option \<Rightarrow> bool" where
  "str_truthy x = (case x of None \<Rightarrow> False | Some s \<Rightarrow> s \<noteq> [])"

text \<open>\<^verbatim>\<open>s.includes(p)\<close>, also the test of a regular expression that is a plain word.\<close>

fun str_includes :: "string \<Rightarrow> string \<Rightarrow> bool" where
  "str_includes [] p = (p = [])"
| "str_includes (c # cs) p = (startsWith (c # cs) p \<or> str_includes cs p)"

text \<open>
  The texts of a posting (title, department name, metadata name) are UTF-8: a character
  outside ASCII is two to four bytes, none of them an ASCII byte. The tests below look
  for words of ASCII letters without regard to case, and for that the letters \<open>A\<close> to
  \<open>Z\<close> are the only ones whose case matters: under the flag \<^verbatim>\<open>i\<close> a character
  outside ASCII never matches an ASCII letter, and where \<^verbatim>\<open>toLowerCase\<close> turns
  one into ASCII (\<open>U+0130\<close> into \<open>i\<close> and a combining dot, \<open>U+212A\<close> into \<open>k\<close>) the
  result is part of none of the words looked for.

  \<open>regex_space\<close> is the class \<^verbatim>\<open>\s\<close> of a regular expression, each character in
  its UTF-8 encoding: tab, line feed, vertical tab, form feed, carriage return, space,
  \<open>U+00A0\<close>, \<open>U+1680\<close>, \<open>U+2000\<close> to \<open>U+200A\<close>, \<open>U+2028\<close>, \<open>U+2029\<close>, \<open>U+202F\<close>,
  \<open>U+205F\<close>, \<open>U+3000\<close> and \<open>U+FEFF\<close>.
\<close>

definition regex_space :: "string list" where
  "regex_space =
     [[CHR 0x09], [CHR 0x0A], [CHR 0x0B], [CHR 0x0C], [CHR 0x0D], [CHR 0x20],
      [CHR 0xC2, CHR 0xA0], [CHR 0xE1, CHR 0x9A, CHR 0x80],
      [CHR 0xE2, CHR 0x80, CHR 0x80], [CHR 0xE2, CHR 0x80, CHR 0x81],
      [CHR 0xE2, CHR 0x80, CHR 0x82], [CHR 0xE2, CHR 0x80, CHR 0x83],
      [CHR 0xE2, CHR 0x80, CHR 0x84], [CHR 0xE2, CHR 0x80, CHR 0x85],
      [CHR 0xE2, CHR 0x80, CHR 0x86], [CHR 0xE2, CHR 0x80, CHR 0x87],
      [CHR 0xE2, CHR 0x80, CHR 0x88], [CHR 0xE2, CHR 0x80, CHR 0x89],
      [CHR 0xE2, CHR 0x80, CHR 0x8A], [CHR 0xE2, CHR 0x80, CHR 0xA8],
      [CHR 0xE2, CHR 0x80, CHR 0xA9], [CHR 0xE2, CHR 0x80, CHR 0xAF],
      [CHR 0xE2, CHR 0x81, CHR 0x9F], [CHR 0xE3, CHR 0x80, CHR 0x80],
      [CHR 0xEF, CHR 0xBB, CHR 0xBF]]"

text \<open>\<^verbatim>\<open>/intern/i\<close>, \<^verbatim>\<open>/part[\s-]?time/i\<close> and \<^verbatim>\<open>/contract/i\<close>. Between
  \<open>part\<close> and \<open>time\<close> there is nothing, a hyphen, or one character of \<^verbatim>\<open>\s\<close>.\<close>

definition test_intern :: "string \<Rightarrow> bool" where
  "test_intern s = str_includes (toLowerCase s) ''intern''"

definition test_part_time :: "string \<Rightarrow> bool" where
  "test_part_time s =
     (str_includes (toLowerCase s) ''parttime''
      \<or> list_ex (\<lambda>sep. str_includes (toLowerCase s) (''part'' @ sep @ ''time''))
           (''-'' # regex_space))"

definition test_contract :: "string \<Rightarrow> bool" where
  "test_contract s = str_includes (toLowerCase s) ''contract''"

text \<open>\<^verbatim>\<open>batchProcess\<close>: groups of \<open>CONCURRENCY\<close> items; the callbacks of a group run
  concurrently and each changes its own firm only, so their effect on the firm list is
  that of running them in order. The callbacks return nothing.\<close>

function batchProcess :: "('a \<Rightarrow> 's \<Rightarrow> 's) \<Rightarrow> 'a list \<Rightarrow> 's \<Rightarrow> 's" where
  "batchProcess fn items st =
     (if items = [] then st
      else batchProcess fn (drop CONCURRENCY items) (fold fn (take CONCURRENCY items) st))"
  by pat_completeness auto
termination
  by (relation "measure (\<lambda>(fn, items, st). length items)") (auto simp: CONCURRENCY_def)

declare batchProcess.simps [simp del]

section \<open>Job fetcher: postings\<close>

record job =
  title :: string
  job_type :: jsvalue
  salary :: string
  posted :: string
  url :: string

record gh_meta =
  meta_name :: "string option"
  meta_value :: jsvalue

record gh_dept =
  dept_name :: "string option"

record gh_job =
  gh_title :: "string option"
  gh_metadata :: "gh_meta list option"
  gh_departments :: "gh_dept list option"
  gh_updated_at :: "string option"
  gh_absolute_url :: "string option"

record lv_categories =
  commitment :: "string option"

record lv_job =
  lv_text :: "string option"
  lv_categories :: "lv_categories option"
  lv_createdAt :: "int option"
  lv_hostedUrl :: "string option"

record js_job =
  employer_name :: "string option"
  job_title :: "string option"
  job_employment_type :: "string option"
  job_min_salary :: "rat option"
  job_max_salary :: "rat option"
  job_posted_at_datetime_utc :: "string option"
  job_apply_link :: "string option"
  job_city :: "string option"
  job_state :: "string option"
  job_country :: "string option"

text \<open>The third parties of one run: the response to the Greenhouse and the Lever request
  for a slug value, the response to the aggregator request for a key and a query, and
  \<^verbatim>\<open>new Date(s)\<close> on a string (\<open>None\<close>: an invalid date).\<close>

record world =
  gh_fetch :: "jsvalue \<Rightarrow> gh_job fetch_outcome"
  lv_fetch :: "jsvalue \<Rightarrow> lv_job fetch_outcome"
  jsearch_fetch :: "string \<Rightarrow> string \<Rightarrow> js_job fetch_outcome"
  date_parse :: "string \<Rightarrow> int option"

text \<open>The loop over \<^verbatim>\<open>ghJob.metadata\<close> in \<^verbatim>\<open>extractType\<close>.\<close>

fun metadata_type :: "gh_meta list \<Rightarrow> jsvalue option" where
  "metadata_type [] = None"
| "metadata_type (m # ms) =
     (if str_truthy (meta_name m) \<and> str_includes (toLowerCase (str_or (meta_name m) [])) ''type''
         \<and> truthy (meta_value m)
      then Some (meta_value m)
      else metadata_type ms)"

definition extractType :: "gh_job \<Rightarrow> jsvalue" where
  "extractType ghJob =
     (case (case gh_metadata ghJob of None \<Rightarrow> None | Some ms \<Rightarrow> metadata_type ms) of
        Some v \<Rightarrow> v
      | None \<Rightarrow>
          (case (case gh_departments ghJob of
                   None \<Rightarrow> None
                 | Some ds \<Rightarrow>
                     if 0 < length ds then
                       (let dept = str_or (dept_name (hd ds)) [] in
                        if test_intern dept then Some ''Internship''
                        else if test_part_time dept then Some ''Part-time''
                        else if test_contract dept then Some ''Contract''
                        else None)
                     else None) of
             Some t \<Rightarrow> JStr t
           | None \<Rightarrow>
               (let t = toLowerCase (str_or (gh_title ghJob) []) in
                if test_intern t then JStr ''Internship''
                else if test_part_time t then JStr ''Part-time''
                else if test_contract t then JStr ''Contract''
                else JStr ''Full-time'')))"

definition gh_job_of :: "world \<Rightarrow> int \<Rightarrow> gh_job \<Rightarrow> job" where
  "gh_job_of w now j =
     \<lparr>title = str_or (gh_title j) ''Untitled'',
      job_type = extractType j,
      salary = ''See listing'',
      posted = (if str_truthy (gh_updated_at j)
                then timeAgo (date_parse w) now (str_or (gh_updated_at j) [])
                else ''Recently''),
      url = str_or (gh_absolute_url j) []\<rparr>"

definition fetchGreenhouseJobs :: "world \<Rightarrow> int \<Rightarrow> jsvalue \<Rightarrow> job list" where
  "fetchGreenhouseJobs w now s =
     (if \<not> truthy s then []
      else
        (case gh_fetch w s of
           NoResponse \<Rightarrow> []
         | Response code body \<Rightarrow>
             if \<not> resp_ok code then []
             else (case body of
                     Unparsable \<Rightarrow> []
                   | OtherShape \<Rightarrow> []
                   | Items js \<Rightarrow> map (gh_job_of w now) js)))"

text \<open>
  Lever: \<^verbatim>\<open>createdAt\<close> is a number of milliseconds. \<^verbatim>\<open>toISOString\<close> throws a
  RangeError outside the range of \<^verbatim>\<open>Date\<close>, and the \<^verbatim>\<open>catch\<close> of
  \<^verbatim>\<open>fetchLeverJobs\<close> then returns no job at all; inside the range the ISO text
  decodes to the same time value.
\<close>

definition date_in_range :: "int \<Rightarrow> bool" where
  "date_in_range t = (- 8640000000000000 \<le> t \<and> t \<le> 8640000000000000)"

definition lv_posted :: "int \<Rightarrow> lv_job \<Rightarrow> string option" where
  "lv_posted now j =
     (case lv_createdAt j of
        None \<Rightarrow> Some ''Recently''
      | Some t \<Rightarrow>
          if t = 0 then Some ''Recently''
          else if date_in_range t then Some (ago_text now (Some t))
          else None)"

definition lv_job_of :: "int \<Rightarrow> lv_job \<Rightarrow> job" where
  "lv_job_of now j =
     \<lparr>title = str_or (lv_text j) ''Untitled'',
      job_type = JStr (str_or (case lv_categories j of None \<Rightarrow> None | Some c \<Rightarrow> commitment c)
                         ''Full-time''),
      salary = ''See listing'',
      posted = (case lv_posted now j of Some p \<Rightarrow> p | None \<Rightarrow> []),
      url = str_or (lv_hostedUrl j) []\<rparr>"

definition fetchLeverJobs :: "world \<Rightarrow> int \<Rightarrow> jsvalue \<Rightarrow> job list" where
  "fetchLeverJobs w now s =
     (if \<not> truthy s then []
      else
        (case lv_fetch w s of
           NoResponse \<Rightarrow> []
         | Response code body \<Rightarrow>
             if \<not> resp_ok code then []
             else (case body of
                     Unparsable \<Rightarrow> []
                   | OtherShape \<Rightarrow> []
                   | Items js \<Rightarrow>
                       if list_all (\<lambda>j. lv_posted now j \<noteq> None) js
                       then map (lv_job_of now) js
                       else [])))"

section \<open>Job fetcher: aggregator\<close>

definition queries :: "string list" where
  "queries = [''architect jobs united states'',
              ''landscape architect jobs united states'',
              ''urban designer jobs united states'']"

text \<open>One query of \<^verbatim>\<open>fetchJSearchJobs\<close>: what it adds to \<^verbatim>\<open>allJobs\<close>.\<close>

definition jsearch_query :: "world \<Rightarrow> string \<Rightarrow> string \<Rightarrow> js_job list" where
  "jsearch_query w apiKey q =
     (case jsearch_fetch w apiKey q of
        NoResponse \<Rightarrow> []
      | Response code body \<Rightarrow>
          if \<not> resp_ok code then []
          else (case body of
                  Unparsable \<Rightarrow> []
                | OtherShape \<Rightarrow> []
                | Items js \<Rightarrow> js))"

definition fetchJSearchJobs :: "world \<Rightarrow> string \<Rightarrow> js_job list" where
  "fetchJSearchJobs w apiKey =
     (if apiKey = [] then []
      else foldl (\<lambda>allJobs q. allJobs @ jsearch_query w apiKey q) [] queries)"

definition is_alnum :: "char \<Rightarrow> bool" where
  "is_alnum c = (c \<in> set ''abcdefghijklmnopqrstuvwxyz0123456789'')"

definition firm_suffixes :: "string list" where
  "firm_suffixes = [''inc'', ''llc'', ''architects'', ''architecture'', ''design'', ''studio'',
                    ''group'', ''associates'', ''partnership'', ''consulting'']"

text \<open>\<^verbatim>\<open>normalize\<close> on a string: lower case, everything but \<^verbatim>\<open>[a-z0-9]\<close> removed,
  then the alternative of the suffix expression that ends the text removed (no
  alternative is the end of another, so at most one does).\<close>

definition normalize_str :: "string \<Rightarrow> string" where
  "normalize_str s =
     (let t = filter is_alnum (toLowerCase s) in
      case find (endsWith t) firm_suffixes of
        Some suffix \<Rightarrow> take (length t - length suffix) t
      | None \<Rightarrow> t)"

text \<open>\<^verbatim>\<open>normalize(name)\<close> on any value: \<^verbatim>\<open>(name || '')\<close> turns a falsy value
  into the empty string; a truthy value that is not a string has no
  \<^verbatim>\<open>toLowerCase\<close>, a TypeError.\<close>

definition normalize :: "jsvalue \<Rightarrow> js_error + string" where
  "normalize v =
     (if \<not> truthy v then Inr (normalize_str [])
      else (case v of JStr s \<Rightarrow> Inr (normalize_str s) | _ \<Rightarrow> Inl TypeError))"

text \<open>A firm in memory during a run of the fetcher: the properties decoded from the
  firm database, and the array that line 235 stores in its \<^verbatim>\<open>jobs\<close> property. A
  reference to a firm is its index in the firm list.\<close>

record firm =
  props :: jsobj
  jobs :: "job list"

record discovery =
  employer :: string
  city :: string
  state :: string
  country :: string
  job :: job

text \<open>\<^verbatim>\<open>Math.round\<close> rounds to the nearest integer, a half upwards.\<close>

definition js_round :: "rat \<Rightarrow> int" where
  "js_round x = \<lfloor>x + 1 / 2\<rfloor>"

text \<open>The en dash of the salary text, in UTF-8.\<close>

definition en_dash :: string where
  "en_dash = [CHR 0xE2, CHR 0x80, CHR 0x93]"

definition num_truthy :: "rat option \<Rightarrow> bool" where
  "num_truthy x = (case x of None \<Rightarrow> False | Some n \<Rightarrow> n \<noteq> 0)"

definition jsearch_job_of :: "world \<Rightarrow> int \<Rightarrow> js_job \<Rightarrow> job" where
  "jsearch_job_of w now j =
     \<lparr>title = str_or (job_title j) ''Untitled'',
      job_type = JStr (str_or (job_employment_type j) ''Full-time''),
      salary = (if num_truthy (job_min_salary j) \<and> num_truthy (job_max_salary j)
                then ''$'' @ show_int (js_round (the (job_min_salary j) / 1000)) @ ''K'' @ en_dash
                     @ ''$'' @ show_int (js_round (the (job_max_salary j) / 1000)) @ ''K''
                else ''See listing''),
      posted = (if str_truthy (job_posted_at_datetime_utc j)
                then timeAgo (date_parse w) now (str_or (job_posted_at_datetime_utc j) [])
                else ''Recently''),
      url = str_or (job_apply_link j) []\<rparr>"

text \<open>The first loop of \<^verbatim>\<open>matchJSearchToFirms\<close>: \<^verbatim>\<open>firmIndex\<close> maps a normalized
  name to the last firm that has it.\<close>

fun build_index :: "firm list \<Rightarrow> nat \<Rightarrow> (string \<rightharpoonup> nat) \<Rightarrow> js_error + (string \<rightharpoonup> nat)" where
  "build_index [] i firmIndex = Inr firmIndex"
| "build_index (f # fs) i firmIndex =
     (case normalize (obj_get (props f) ''name'') of
        Inl e \<Rightarrow> Inl e
      | Inr k \<Rightarrow> build_index fs (Suc i) (firmIndex(k \<mapsto> i)))"

text \<open>The second loop: \<open>matched\<close> pairs a firm reference with a job, \<open>unmatched\<close>
  holds the discoveries.\<close>

fun match_jobs ::
  "world \<Rightarrow> int \<Rightarrow> (string \<rightharpoonup> nat) \<Rightarrow> js_job list \<Rightarrow> (nat \<times> job) list \<times> discovery list" where
  "match_jobs w now firmIndex [] = ([], [])"
| "match_jobs w now firmIndex (j # js) =
     (let emp = str_or (employer_name j) [];
          k = normalize_str emp;
          jb = jsearch_job_of w now j;
          (matched, unmatched) = match_jobs w now firmIndex js
      in case firmIndex k of
           Some i \<Rightarrow> ((i, jb) # matched, unmatched)
         | None \<Rightarrow>
             (matched,
              \<lparr>employer = emp, city = str_or (job_city j) [], state = str_or (job_state j) [],
               country = str_or (job_country j) [], job = jb\<rparr> # unmatched))"

definition matchJSearchToFirms ::
  "world \<Rightarrow> int \<Rightarrow> js_job list \<Rightarrow> firm list \<Rightarrow> js_error + ((nat \<times> job) list \<times> discovery list)" where
  "matchJSearchToFirms w now jsearchJobs firms =
     (case build_index firms 0 Map.empty of
        Inl e \<Rightarrow> Inl e
      | Inr firmIndex \<Rightarrow> Inr (match_jobs w now firmIndex jsearchJobs))"

section \<open>Job fetcher: main pipeline\<close>

text \<open>The callback of the Greenhouse pass and of the Lever pass, on the firm with
  reference \<open>i\<close>. The counters of the summary are left out.\<close>

definition greenhouse_step :: "world \<Rightarrow> int \<Rightarrow> nat \<Rightarrow> firm list \<Rightarrow> firm list" where
  "greenhouse_step w now i firms =
     (let f = firms ! i; js = fetchGreenhouseJobs w now (obj_get (props f) ''greenhouse_slug'') in
      if 0 < length js then firms[i := f\<lparr>jobs := jobs f @ js\<rparr>] else firms)"

definition lever_step :: "world \<Rightarrow> int \<Rightarrow> nat \<Rightarrow> firm list \<Rightarrow> firm list" where
  "lever_step w now i firms =
     (let f = firms ! i; js = fetchLeverJobs w now (obj_get (props f) ''lever_slug'') in
      if 0 < length js then firms[i := f\<lparr>jobs := jobs f @ js\<rparr>] else firms)"

text \<open>\<^verbatim>\<open>firms.filter(f => f.k)\<close>, as the references of the firms it keeps.\<close>

definition firms_with :: "string \<Rightarrow> firm list \<Rightarrow> nat list" where
  "firms_with k firms = filter (\<lambda>i. truthy (obj_get (props (firms ! i)) k)) [0..<length firms]"

definition greenhouse_pass :: "world \<Rightarrow> int \<Rightarrow> firm list \<Rightarrow> firm list" where
  "greenhouse_pass w now firms =
     batchProcess (greenhouse_step w now) (firms_with ''greenhouse_slug'' firms) firms"

definition lever_pass :: "world \<Rightarrow> int \<Rightarrow> firm list \<Rightarrow> firm list" where
  "lever_pass w now firms =
     batchProcess (lever_step w now) (firms_with ''lever_slug'' firms) firms"

text \<open>The loop over \<open>matched\<close>: a job is pushed unless the firm already has a job of
  the same title.\<close>

definition add_matched :: "nat \<times> job \<Rightarrow> firm list \<Rightarrow> firm list" where
  "add_matched m firms =
     (let f = firms ! fst m in
      if \<not> list_ex (\<lambda>j. title j = title (snd m)) (jobs f)
      then firms[fst m := f\<lparr>jobs := jobs f @ [snd m]\<rparr>]
      else firms)"

text \<open>
  A file written with \<^verbatim>\<open>JSON.stringify(value, null, indent)\<close> is kept as the indent
  and the value; \<^verbatim>\<open>JSON.stringify(value)\<close> is indent 0. A property whose value is
  \<^verbatim>\<open>undefined\<close> is not serialized.
\<close>

record json_text =
  indent :: nat
  content :: jsvalue

definition serialized :: "jsobj \<Rightarrow> jsvalue" where
  "serialized kvs = JObj (filter (\<lambda>(k, v). v \<noteq> JUndefined) kvs)"

definition job_js :: "job \<Rightarrow> jsvalue" where
  "job_js j =
     serialized [(''title'', JStr (title j)), (''type'', job_type j), (''salary'', JStr (salary j)),
                 (''posted'', JStr (posted j)), (''url'', JStr (url j))]"

definition discovery_js :: "discovery \<Rightarrow> jsvalue" where
  "discovery_js d =
     serialized [(''employer'', JStr (employer d)), (''city'', JStr (city d)),
                 (''state'', JStr (state d)), (''country'', JStr (country d)),
                 (''job'', job_js (job d))]"

text \<open>One record of \<open>output\<close>, as it is serialized.\<close>

definition output_record :: "firm \<Rightarrow> jsvalue" where
  "output_record f =
     serialized
       [(''id'', obj_get (props f) ''id''),
        (''name'', obj_get (props f) ''name''),
        (''city'', obj_get (props f) ''city''),
        (''state'', obj_get (props f) ''state''),
        (''lat'', obj_get (props f) ''lat''),
        (''lng'', obj_get (props f) ''lng''),
        (''size'', obj_get (props f) ''size''),
        (''discipline'', obj_get (props f) ''discipline''),
        (''specialties'', obj_get (props f) ''specialties''),
        (''jobs'', JArr (map job_js (jobs f))),
        (''website'', obj_get (props f) ''website''),
        (''about'', obj_get (props f) ''about'')]"

text \<open>The three files: the firm database (decoded; the fetcher only reads it), the
  public output and the discoveries file (\<open>None\<close>: the file does not exist).\<close>

record files =
  firms_base :: "jsobj list"
  output_file :: "json_text option"
  discoveries_file :: "json_text option"

definition write_output :: "firm list \<Rightarrow> files \<Rightarrow> files" where
  "write_output firms fs =
     fs\<lparr>output_file := Some \<lparr>indent = 0, content = JArr (map output_record firms)\<rparr>\<rparr>"

definition write_discoveries :: "discovery list \<Rightarrow> files \<Rightarrow> files" where
  "write_discoveries unmatched fs =
     fs\<lparr>discoveries_file := Some \<lparr>indent = 2, content = JArr (map discovery_js unmatched)\<rparr>\<rparr>"

text \<open>The firm list after line 235 and after the two provider passes.\<close>

definition provider_passes :: "world \<Rightarrow> int \<Rightarrow> jsobj list \<Rightarrow> firm list" where
  "provider_passes w now base =
     lever_pass w now (greenhouse_pass w now (map (\<lambda>f. \<lparr>props = f, jobs = []\<rparr>) base))"

text \<open>
  The fetcher's \<^verbatim>\<open>main\<close>: \<open>key_env\<close> is the environment variable
  \<^verbatim>\<open>JSEARCH_API_KEY\<close> (\<open>None\<close>: not set), \<open>now\<close> the clock of the run, \<open>fs\<close> the
  files before the run. The result is the files after the run, or the error that
  rejects \<^verbatim>\<open>main\<close> (exit code 1); the only throw is in
  \<^verbatim>\<open>matchJSearchToFirms\<close>, before anything is written.
\<close>

definition main :: "world \<Rightarrow> string option \<Rightarrow> int \<Rightarrow> files \<Rightarrow> js_error + files" where
  "main w key_env now fs =
     (let firms = provider_passes w now (firms_base fs);
          apiKey = str_or key_env [];
          jsearchRaw = fetchJSearchJobs w apiKey
      in if 0 < length jsearchRaw then
           (case matchJSearchToFirms w now jsearchRaw firms of
              Inl e \<Rightarrow> Inl e
            | Inr (matched, unmatched) \<Rightarrow>
                (let firms' = fold add_matched matched firms;
                     fs' = (if 0 < length unmatched then write_discoveries unmatched fs else fs)
                 in Inr (write_output firms' fs')))
         else Inr (write_output firms fs))"

section \<open>The job type as the specification describes it\<close>

text \<open>
  The specification describes the type of a Greenhouse posting as an ordered list of
  rules with a default: a metadata field whose name contains \<open>type\<close>, then a keyword
  (\<open>intern\<close>, \<open>part-time\<close>, \<open>contract\<close>) in a department name, then such a keyword in
  the title, then \<open>Full-time\<close>. The definitions of this section follow these words
  and use none of the tests of the code; they are compared with \<^verbatim>\<open>extractType\<close>
  below.

  A text mentions a word when the word stands somewhere in it, in any letter case:
  \<open>same_letter c k\<close> holds when the character \<open>c\<close> of the text is the character \<open>k\<close>
  of the word or its capital letter (\<open>A\<close> to \<open>Z\<close> are the codes 65 to 90, the small
  letter is 32 above).
\<close>

definition same_letter :: "char \<Rightarrow> char \<Rightarrow> bool" where
  "same_letter c k =
     (c = k \<or> (65 \<le> (of_char c :: nat) \<and> (of_char c :: nat) \<le> 90
                \<and> (of_char k :: nat) = of_char c + 32))"

fun reads_at :: "string \<Rightarrow> string \<Rightarrow> bool" where
  "reads_at s [] = True"
| "reads_at [] (k # ks) = False"
| "reads_at (c # cs) (k # ks) = (same_letter c k \<and> reads_at cs ks)"

fun mentions :: "string \<Rightarrow> string \<Rightarrow> bool" where
  "mentions [] w = (w = [])"
| "mentions (c # cs) w = (reads_at (c # cs) w \<or> mentions cs w)"

text \<open>\<open>part-time\<close> is also written without the hyphen, or with one white-space
  character in its place.\<close>

definition mentions_part_time :: "string \<Rightarrow> bool" where
  "mentions_part_time s =
     (mentions s ''part-time'' \<or> mentions s ''parttime''
      \<or> list_ex (\<lambda>sp. mentions s (''part'' @ sp @ ''time'')) regex_space)"

definition keyword_type :: "string \<Rightarrow> string option" where
  "keyword_type s =
     (if mentions s ''intern'' then Some ''Internship''
      else if mentions_part_time s then Some ''Part-time''
      else if mentions s ''contract'' then Some ''Contract''
      else None)"

definition names_type :: "gh_meta \<Rightarrow> bool" where
  "names_type m = (case meta_name m of None \<Rightarrow> False | Some n \<Rightarrow> mentions n ''type'')"

fun first_applicable :: "('a \<Rightarrow> 'b option) list \<Rightarrow> 'b \<Rightarrow> 'a \<Rightarrow> 'b" where
  "first_applicable [] d x = d"
| "first_applicable (r # rs) d x = (case r x of Some v \<Rightarrow> v | None \<Rightarrow> first_applicable rs d x)"

text \<open>The keyword rule on the title is the same in both readings below.\<close>

definition spec_title_rule :: "gh_job \<Rightarrow> jsvalue option" where
  "spec_title_rule j =
     (case gh_title j of None \<Rightarrow> None | Some t \<Rightarrow> map_option JStr (keyword_type t))"

text \<open>
  The rules word for word: the first metadata field whose name contains \<open>type\<close> gives
  its value as it is, whatever the value; the department rule takes the first
  department whose name has a keyword.
\<close>

definition claimed_metadata_rule :: "gh_job \<Rightarrow> jsvalue option" where
  "claimed_metadata_rule j =
     (case gh_metadata j of
        None \<Rightarrow> None
      | Some ms \<Rightarrow> map_option meta_value (find names_type ms))"

definition department_keyword :: "gh_dept \<Rightarrow> string option" where
  "department_keyword d = (case dept_name d of None \<Rightarrow> None | Some n \<Rightarrow> keyword_type n)"

definition claimed_department_rule :: "gh_job \<Rightarrow> jsvalue option" where
  "claimed_department_rule j =
     (case gh_departments j of
        None \<Rightarrow> None
      | Some ds \<Rightarrow>
          (case find (\<lambda>d. department_keyword d \<noteq> None) ds of
             None \<Rightarrow> None
           | Some d \<Rightarrow> map_option JStr (department_keyword d)))"

definition claimed_job_type :: "gh_job \<Rightarrow> jsvalue" where
  "claimed_job_type j =
     first_applicable [claimed_metadata_rule, claimed_department_rule, spec_title_rule]
       (JStr ''Full-time'') j"

text \<open>
  The rules with the two restrictions made explicit: a metadata field counts only when
  it carries a value (anything but \<^verbatim>\<open>undefined\<close>, \<^verbatim>\<open>null\<close>, \<^verbatim>\<open>false\<close>,
  \<^verbatim>\<open>0\<close> and the empty string), and the department rule reads the first department
  only.
\<close>

definition carries_value :: "jsvalue \<Rightarrow> bool" where
  "carries_value v = (v \<notin> set [JUndefined, JNull, JBool False, JNum 0, JStr []])"

definition spec_metadata_rule :: "gh_job \<Rightarrow> jsvalue option" where
  "spec_metadata_rule j =
     (case gh_metadata j of
        None \<Rightarrow> None
      | Some ms \<Rightarrow> map_option meta_value (find (\<lambda>m. names_type m \<and> carries_value (meta_value m)) ms))"

definition spec_department_rule :: "gh_job \<Rightarrow> jsvalue option" where
  "spec_department_rule j =
     (case gh_departments j of
        None \<Rightarrow> None
      | Some [] \<Rightarrow> None
      | Some (d # ds) \<Rightarrow> map_option JStr (department_keyword d))"

definition spec_job_type :: "gh_job \<Rightarrow> jsvalue" where
  "spec_job_type j =
     first_applicable [spec_metadata_rule, spec_department_rule, spec_title_rule]
       (JStr ''Full-time'') j"

section \<open>Reading the results\<close>

text \<open>The job list of each firm in the public output, as the serialized job objects.\<close>

definition output_jobs :: "files \<Rightarrow> jsvalue list list" where
  "output_jobs fs =
     (case output_file fs of
        None \<Rightarrow> []
      | Some t \<Rightarrow>
          (case content t of
             JArr recs \<Rightarrow> map (\<lambda>r. case get_prop r ''jobs'' of JArr js \<Rightarrow> js | _ \<Rightarrow> []) recs
           | _ \<Rightarrow> []))"

text \<open>A job and a firm with the \<^verbatim>\<open>posted\<close> text blanked: what is left of a job is its
  title, type, salary and url.\<close>

definition without_posted :: "job \<Rightarrow> job" where
  "without_posted j = j\<lparr>posted := []\<rparr>"

definition firm_without_posted :: "firm \<Rightarrow> firm" where
  "firm_without_posted f = f\<lparr>jobs := map without_posted (jobs f)\<rparr>"

section \<open>An example run of the fetcher\<close>

text \<open>Three firms: the first has a Greenhouse slug, the second a Lever slug, the third
  none. Greenhouse has one posting for \<open>acme\<close>, updated at midnight UTC of 1 January 2024;
  Lever has one for \<open>bolt\<close>; the aggregator answers the first query with two results,
  one of an employer that normalizes to the third firm, and fails on the other queries.\<close>

definition example_world :: world where
  "example_world =
     \<lparr>gh_fetch = (\<lambda>s. if s = JStr ''acme''
                        then Response 200 (Items
                          [\<lparr>gh_title = Some ''Design Intern'', gh_metadata = None,
                            gh_departments = Some [], gh_updated_at = Some ''2024-01-01'',
                            gh_absolute_url = Some ''https://gh/1''\<rparr>])
                        else Response 404 OtherShape),
      lv_fetch = (\<lambda>s. if s = JStr ''bolt''
                        then Response 200 (Items
                          [\<lparr>lv_text = Some ''Architect'',
                            lv_categories = Some \<lparr>commitment = Some ''Part-time''\<rparr>,
                            lv_createdAt = None, lv_hostedUrl = Some ''https://lv/1''\<rparr>])
                        else NoResponse),
      jsearch_fetch = (\<lambda>k q. if k = ''key'' \<and> q = ''architect jobs united states''
                        then Response 200 (Items
                          [\<lparr>employer_name = Some ''CORE Group'', job_title = Some ''Planner'',
                            job_employment_type = None, job_min_salary = Some 61000,
                            job_max_salary = Some 80400, job_posted_at_datetime_utc = None,
                            job_apply_link = Some ''https://js/1'', job_city = None,
                            job_state = None, job_country = Some ''US''\<rparr>,
                           \<lparr>employer_name = Some ''Zeta Partners'', job_title = Some ''Drafter'',
                            job_employment_type = Some ''Contract'', job_min_salary = None,
                            job_max_salary = None, job_posted_at_datetime_utc = None,
                            job_apply_link = None, job_city = Some ''Austin'',
                            job_state = Some ''TX'', job_country = Some ''US''\<rparr>])
                        else Response 500 Unparsable),
      date_parse = (\<lambda>s. if s = ''2024-01-01'' then Some 1704067200000 else None)\<rparr>"

text \<open>The same world on a day when the aggregator only returns the result that matches
  the third firm.\<close>

definition example_world_matched :: world where
  "example_world_matched =
     example_world
       \<lparr>jsearch_fetch := (\<lambda>k q. if k = ''key'' \<and> q = ''architect jobs united states''
                        then Response 200 (Items
                          [\<lparr>employer_name = Some ''CORE Group'', job_title = Some ''Planner'',
                            job_employment_type = None, job_min_salary = Some 61000,
                            job_max_salary = Some 80400, job_posted_at_datetime_utc = None,
                            job_apply_link = Some ''https://js/1'', job_city = None,
                            job_state = None, job_country = Some ''US''\<rparr>])
                        else Response 500 Unparsable)\<rparr>"

definition example_base :: "jsobj list" where
  "example_base =
     [[(''id'', JNum 1), (''name'', JStr ''Acme Architects''), (''city'', JStr ''Boston''),
       (''greenhouse_slug'', JStr ''acme'')],
      [(''id'', JNum 2), (''name'', JStr ''Bolt Studio''), (''lever_slug'', JStr ''bolt'')],
      [(''id'', JNum 3), (''name'', JStr ''Core Group'')]]"

definition example_files :: files where
  "example_files = \<lparr>firms_base = example_base, output_file = None, discoveries_file = None\<rparr>"

text \<open>The public output of a run in the example world with the key set; \<open>p\<close> is the
  \<^verbatim>\<open>posted\<close> text of the Greenhouse job, the only part that depends on the clock.\<close>

definition example_output :: "string \<Rightarrow> json_text" where
  "example_output p =
     \<lparr>indent = 0,
      content = JArr
        [JObj [(''id'', JNum 1), (''name'', JStr ''Acme Architects''), (''city'', JStr ''Boston''),
               (''jobs'', JArr [JObj [(''title'', JStr ''Design Intern''),
                                       (''type'', JStr ''Internship''),
                                       (''salary'', JStr ''See listing''),
                                       (''posted'', JStr p),
                                       (''url'', JStr ''https://gh/1'')]])],
         JObj [(''id'', JNum 2), (''name'', JStr ''Bolt Studio''),
               (''jobs'', JArr [JObj [(''title'', JStr ''Architect''),
                                       (''type'', JStr ''Part-time''),
                                       (''salary'', JStr ''See listing''),
                                       (''posted'', JStr ''Recently''),
                                       (''url'', JStr ''https://lv/1'')]])],
         JObj [(''id'', JNum 3), (''name'', JStr ''Core Group''),
               (''jobs'', JArr [JObj [(''title'', JStr ''Planner''),
                                       (''type'', JStr ''Full-time''),
                                       (''salary'', JStr (''$61K'' @ en_dash @ ''$80K'')),
                                       (''posted'', JStr ''Recently''),
                                       (''url'', JStr ''https://js/1'')]])]]\<rparr>"

definition example_discoveries :: json_text where
  "example_discoveries =
     \<lparr>indent = 2,
      content = JArr
        [JObj [(''employer'', JStr ''Zeta Partners''), (''city'', JStr ''Austin''),
               (''state'', JStr ''TX''), (''country'', JStr ''US''),
               (''job'', JObj [(''title'', JStr ''Drafter''), (''type'', JStr ''Contract''),
                               (''salary'', JStr ''See listing''), (''posted'', JStr ''Recently''),
                               (''url'', JStr [])])]]\<rparr>"

definition example_after :: "string \<Rightarrow> files" where
  "example_after p =
     \<lparr>firms_base = example_base, output_file = Some (example_output p),
      discoveries_file = Some example_discoveries\<rparr>"

section \<open>Properties of the probes\<close>

lemma isArray_iff: "isArray v \<longleftrightarrow> (\<exists>xs. v = JArr xs)"
  by (cases v) simp_all

lemma get_prop_array_iff:
  "truthy v \<and> isArray (get_prop v k) \<longleftrightarrow> (\<exists>kvs xs. v = JObj kvs \<and> obj_get kvs k = JArr xs)"
  by (cases v) (simp_all add: isArray_iff)

lemma probeGreenhouse_found_iff:
  "found (probeGreenhouse P net s) \<longleftrightarrow>
     (\<exists>body kvs xs. net (greenhouse_url s) = Responded 200 body \<and> P body = Some (JObj kvs)
        \<and> obj_get kvs ''jobs'' = JArr xs)"
proof -
  have "found (probeGreenhouse P net s) \<longleftrightarrow>
      status (makeRequest P net (greenhouse_url s)) = Some 200
      \<and> (truthy (data (makeRequest P net (greenhouse_url s)))
         \<and> isArray (get_prop (data (makeRequest P net (greenhouse_url s))) ''jobs''))"
    by (simp add: probeGreenhouse_def Let_def)
  also have "\<dots> \<longleftrightarrow> (\<exists>body kvs xs. net (greenhouse_url s) = Responded 200 body
        \<and> P body = Some (JObj kvs) \<and> obj_get kvs ''jobs'' = JArr xs)"
    unfolding get_prop_array_iff
    by (auto simp: makeRequest_def split: http_event.splits option.splits)
  finally show ?thesis .
qed

lemma probeLever_found_iff:
  "found (probeLever P net s) \<longleftrightarrow>
     (\<exists>body xs. net (lever_url s) = Responded 200 body \<and> P body = Some (JArr xs))"
  by (auto simp: probeLever_def Let_def makeRequest_def isArray_iff
      split: http_event.splits option.splits)

lemma probeGreenhouse_cases:
  "probeGreenhouse P net s = \<lparr>found = True, slug = Some s\<rparr>
   \<or> probeGreenhouse P net s = \<lparr>found = False, slug = None\<rparr>"
  by (simp add: probeGreenhouse_def Let_def)

lemma probeLever_cases:
  "probeLever P net s = \<lparr>found = True, slug = Some s\<rparr>
   \<or> probeLever P net s = \<lparr>found = False, slug = None\<rparr>"
  by (simp add: probeLever_def Let_def)

text \<open>
  Claim C1. A probe reports a match exactly when the request ended with status 200 and
  the decoded body has the provider's shape: for Greenhouse an object whose \<^verbatim>\<open>jobs\<close>
  property is an array, for Lever an array. In every other case (another status, a
  network error, a timeout, a body that does not decode, a decoded body of another shape)
  the result is the one record \<^verbatim>\<open>{ found: false }\<close>, so that nothing tells a
  timeout from a 404. The probes are total functions of the network's answer: no case
  raises.
\<close>

theorem probe_classification:
  "probeGreenhouse P net s =
     (if \<exists>body kvs xs. net (greenhouse_url s) = Responded 200 body \<and> P body = Some (JObj kvs)
            \<and> obj_get kvs ''jobs'' = JArr xs
      then \<lparr>found = True, slug = Some s\<rparr> else \<lparr>found = False, slug = None\<rparr>)
   \<and> probeLever P net s =
     (if \<exists>body xs. net (lever_url s) = Responded 200 body \<and> P body = Some (JArr xs)
      then \<lparr>found = True, slug = Some s\<rparr> else \<lparr>found = False, slug = None\<rparr>)"
proof
  show "probeGreenhouse P net s =
     (if \<exists>body kvs xs. net (greenhouse_url s) = Responded 200 body \<and> P body = Some (JObj kvs)
            \<and> obj_get kvs ''jobs'' = JArr xs
      then \<lparr>found = True, slug = Some s\<rparr> else \<lparr>found = False, slug = None\<rparr>)"
    using probeGreenhouse_found_iff [of P net s] probeGreenhouse_cases [of P net s]
    by (cases "found (probeGreenhouse P net s)") auto
next
  show "probeLever P net s =
     (if \<exists>body xs. net (lever_url s) = Responded 200 body \<and> P body = Some (JArr xs)
      then \<lparr>found = True, slug = Some s\<rparr> else \<lparr>found = False, slug = None\<rparr>)"
    using probeLever_found_iff [of P net s] probeLever_cases [of P net s]
    by (cases "found (probeLever P net s)") auto
qed

text \<open>The classification at concrete answers: a timeout, a 404, a 200 whose body is an
  object without \<^verbatim>\<open>jobs\<close>, a 200 whose body does not decode, a 201 with the right
  body, and the two matches. The decoder maps three texts and rejects the rest.\<close>

theorem probe_classification_witness:
  "(let P = (\<lambda>b. if b = ''[]'' then Some (JArr [])
                  else if b = ''{}'' then Some (JObj [])
                  else if b = ''{jobs:[]}'' then Some (JObj [(''jobs'', JArr [])])
                  else None)
    in probeGreenhouse P (\<lambda>u. Timeout) ''acme'' = \<lparr>found = False, slug = None\<rparr>
     \<and> probeGreenhouse P (\<lambda>u. Responded 404 ''{jobs:[]}'') ''acme'' = \<lparr>found = False, slug = None\<rparr>
     \<and> probeGreenhouse P (\<lambda>u. Responded 200 ''{}'') ''acme'' = \<lparr>found = False, slug = None\<rparr>
     \<and> probeGreenhouse P (\<lambda>u. Responded 200 ''[]'') ''acme'' = \<lparr>found = False, slug = None\<rparr>
     \<and> probeGreenhouse P (\<lambda>u. Responded 200 ''<html>'') ''acme'' = \<lparr>found = False, slug = None\<rparr>
     \<and> probeGreenhouse P (\<lambda>u. Responded 201 ''{jobs:[]}'') ''acme'' = \<lparr>found = False, slug = None\<rparr>
     \<and> probeGreenhouse P (\<lambda>u. NetError ''ECONNRESET'') ''acme'' = \<lparr>found = False, slug = None\<rparr>
     \<and> probeGreenhouse P (\<lambda>u. Responded 200 ''{jobs:[]}'') ''acme'' = \<lparr>found = True, slug = Some ''acme''\<rparr>
     \<and> probeLever P (\<lambda>u. Timeout) ''acme'' = \<lparr>found = False, slug = None\<rparr>
     \<and> probeLever P (\<lambda>u. Responded 404 ''[]'') ''acme'' = \<lparr>found = False, slug = None\<rparr>
     \<and> probeLever P (\<lambda>u. Responded 200 ''{}'') ''acme'' = \<lparr>found = False, slug = None\<rparr>
     \<and> probeLever P (\<lambda>u. Responded 200 ''[]'') ''acme'' = \<lparr>found = True, slug = Some ''acme''\<rparr>)"
  by (simp add: Let_def probe_classification [THEN conjunct1] probe_classification [THEN conjunct2]
      obj_get_def)



section \<open>Properties of the slug discoverer\<close>

lemma candidates_foo_bar:
  "generateSlugCandidates uh [(''name'', JStr ''Foo & Bar Architects (FBA)'')]
     = Inr [''fba'', ''foo'', ''fooandbararchitectsfba'', ''foo-and-bar-architects-fba'']"
  by code_simp








lemma set_insert_by: "set (insert_by cmp x ys) = insert x (set ys)"
  by (induction ys) auto


lemma set_stable_sort: "set (stable_sort cmp xs) = set xs"
  by (induction xs) (simp_all add: stable_sort_def set_insert_by)











text \<open>
  Claim C6. For the firm \<^verbatim>\<open>{name: "Foo & Bar Architects (FBA)"}\<close> the generator
  returns four candidates: \<open>fba\<close>, \<open>foo\<close>, the normalized full name
  \<open>foo-and-bar-architects-fba\<close> and its form without hyphens. So \<open>fba\<close> and \<open>foo\<close>
  are candidates, and so is a variant of \<open>foo-and-bar\<close>: a candidate begins with
  \<open>foo-and-bar\<close>, and one with the same letters without the hyphens. The name ends
  with the parenthesis, so no suffix is removed, and the full name is what is
  normalized.
\<close>

theorem candidates_example:
  "\<exists>cands. generateSlugCandidates uh [(''name'', JStr ''Foo & Bar Architects (FBA)'')] = Inr cands
     \<and> ''fba'' \<in> set cands
     \<and> ''foo'' \<in> set cands
     \<and> (\<exists>c \<in> set cands. \<exists>rest. c = ''foo-and-bar'' @ rest)
     \<and> (\<exists>c \<in> set cands. \<exists>rest. c = ''fooandbar'' @ rest)
     \<and> cands = [''fba'', ''foo'', ''fooandbararchitectsfba'', ''foo-and-bar-architects-fba'']"
proof (intro exI conjI)
  show "generateSlugCandidates uh [(''name'', JStr ''Foo & Bar Architects (FBA)'')]
      = Inr [''fba'', ''foo'', ''fooandbararchitectsfba'', ''foo-and-bar-architects-fba'']"
    by (rule candidates_foo_bar)
  show "\<exists>c \<in> set [''fba'', ''foo'', ''fooandbararchitectsfba'', ''foo-and-bar-architects-fba''].
          \<exists>rest. c = ''foo-and-bar'' @ rest"
    by (intro bexI [of _ "''foo-and-bar-architects-fba''"] exI [of _ "''-architects-fba''"]) simp_all
  show "\<exists>c \<in> set [''fba'', ''foo'', ''fooandbararchitectsfba'', ''foo-and-bar-architects-fba''].
          \<exists>rest. c = ''fooandbar'' @ rest"
    by (intro bexI [of _ "''fooandbararchitectsfba''"] exI [of _ "''architectsfba''"]) simp_all
qed simp_all

text \<open>The same firm read without a website decoder: the candidates in their order.\<close>

theorem candidates_example_witness:
  "generateSlugCandidates no_hostname [(''name'', JStr ''Foo & Bar Architects (FBA)'')]
     = Inr [''fba'', ''foo'', ''fooandbararchitectsfba'', ''foo-and-bar-architects-fba'']"
  using candidates_example [of no_hostname] by auto

lemma process_batch_append:
  "process_batch P net uh (xs @ ys) =
     (case process_batch P net uh xs of
        Inl e \<Rightarrow> Inl e
      | Inr (fx, rx) \<Rightarrow>
          (case process_batch P net uh ys of
             Inl e \<Rightarrow> Inl e
           | Inr (fy, ry) \<Rightarrow> Inr (fx @ fy, rx @ ry)))"
  by (induction xs) (auto split: sum.splits prod.splits)

lemma process_batch_nth:
  "process_batch P net uh xs = Inr (fs, rs) \<Longrightarrow>
   length fs = length xs \<and> length rs = length xs
   \<and> (\<forall>i < length xs. processFirm P net uh (xs ! i) = Inr (fs ! i, rs ! i))"
proof (induction xs arbitrary: fs rs)
  case Nil
  then show ?case by simp
next
  case (Cons x xs)
  from Cons.prems obtain f r fs' rs' where
    x: "processFirm P net uh x = Inr (f, r)" and
    rest: "process_batch P net uh xs = Inr (fs', rs')" and
    eq: "fs = f # fs'" "rs = r # rs'"
    by (auto split: sum.splits prod.splits)
  from Cons.IH [OF rest] x eq show ?case
    by (auto simp: nth_Cons split: nat.splits)
qed

lemma discover_batches_eq:
  "discover_batches P net uh firms r =
     (case process_batch P net uh firms of
        Inl e \<Rightarrow> Inl e
      | Inr (fs, rs) \<Rightarrow> Inr (fs, foldl tally r rs))"
proof (induction P net uh firms r rule: discover_batches.induct)
  case (1 P net uh firms r)
  show ?case
  proof (cases "firms = []")
    case True
    then show ?thesis by (simp add: discover_batches.simps)
  next
    case False
    have split: "process_batch P net uh firms =
        process_batch P net uh (take CONCURRENCY firms @ drop CONCURRENCY firms)"
      by simp
    show ?thesis
    proof (cases "process_batch P net uh (take CONCURRENCY firms)")
      case (Inl e)
      with False show ?thesis
        unfolding split process_batch_append
        by (simp add: discover_batches.simps [of P net uh firms])
    next
      case (Inr p)
      obtain fx rx where p: "p = (fx, rx)" by (cases p)
      from "1.IH" [OF False Inr [unfolded p] refl]
      have IH: "discover_batches P net uh (drop CONCURRENCY firms) (foldl tally r rx) =
         (case process_batch P net uh (drop CONCURRENCY firms) of
            Inl e \<Rightarrow> Inl e
          | Inr (fs, rs) \<Rightarrow> Inr (fs, foldl tally (foldl tally r rx) rs))" .
      show ?thesis
        unfolding split process_batch_append
        using False Inr p IH
        by (simp add: discover_batches.simps [of P net uh firms] split: sum.splits prod.splits)
    qed
  qed
qed

lemma foldl_tally_counts:
  "greenhouse_count (foldl tally r rs) = greenhouse_count r + length (filter greenhouse rs)
   \<and> lever_count (foldl tally r rs)
       = lever_count r + length (filter (\<lambda>x. \<not> greenhouse x \<and> lever x) rs)
   \<and> noMatch_count (foldl tally r rs)
       = noMatch_count r + length (filter (\<lambda>x. \<not> greenhouse x \<and> \<not> lever x) rs)"
  by (induction rs arbitrary: r) (simp_all add: tally_def)

lemma three_way_partition:
  "length (filter greenhouse rs) + length (filter (\<lambda>x. \<not> greenhouse x \<and> lever x) rs)
     + length (filter (\<lambda>x. \<not> greenhouse x \<and> \<not> lever x) rs) = length rs"
  by (induction rs) auto

text \<open>
  Claim C10. When the discoverer's \<^verbatim>\<open>main\<close> reaches its summary, every firm has a
  result \<open>rs ! i\<close> of \<^verbatim>\<open>processFirm\<close>, and the three counters count a partition of
  these results: Greenhouse counts the firms found on Greenhouse (whether or not they
  were found on Lever too), Lever the firms found on Lever only, no-match the firms found
  on neither. Their sum is the number of firms.
\<close>

theorem counters_partition:
  assumes "discover_main P net uh firms = Inr (firms', r)"
  shows "\<exists>rs. length rs = length firms \<and> length firms' = length firms
           \<and> (\<forall>i < length firms. processFirm P net uh (firms ! i) = Inr (firms' ! i, rs ! i))
           \<and> greenhouse_count r = length (filter greenhouse rs)
           \<and> lever_count r = length (filter (\<lambda>x. \<not> greenhouse x \<and> lever x) rs)
           \<and> noMatch_count r = length (filter (\<lambda>x. \<not> greenhouse x \<and> \<not> lever x) rs)
           \<and> greenhouse_count r + lever_count r + noMatch_count r = length firms"
proof -
  from assms obtain rs where
    batch: "process_batch P net uh firms = Inr (firms', rs)" and
    r: "r = foldl tally \<lparr>greenhouse_count = 0, lever_count = 0, noMatch_count = 0\<rparr> rs"
    by (auto simp: discover_main_def discover_batches_eq split: sum.splits prod.splits)
  note nth = process_batch_nth [OF batch]
  have counts:
    "greenhouse_count r = length (filter greenhouse rs)"
    "lever_count r = length (filter (\<lambda>x. \<not> greenhouse x \<and> lever x) rs)"
    "noMatch_count r = length (filter (\<lambda>x. \<not> greenhouse x \<and> \<not> lever x) rs)"
    using foldl_tally_counts [of "\<lparr>greenhouse_count = 0, lever_count = 0, noMatch_count = 0\<rparr>" rs]
    by (simp_all add: r)
  have total: "greenhouse_count r + lever_count r + noMatch_count r = length firms"
    using three_way_partition [of rs] nth by (simp add: counts)
  show ?thesis
    using nth counts total by blast
qed


text \<open>Six firms, so that the loop runs two batches: \<open>Acme\<close> is found on both
  providers, \<open>Bolt\<close> on Lever only, the other four on neither.\<close>

lemma discover_six_firms:
  "discover_main
     (\<lambda>b. if b = ''G'' then Some (JObj [(''jobs'', JArr [])])
           else if b = ''L'' then Some (JArr []) else None)
     (\<lambda>u. if u = greenhouse_url ''acme'' then Responded 200 ''G''
           else if u = lever_url ''acme'' \<or> u = lever_url ''bolt'' then Responded 200 ''L''
           else Responded 404 ''L'')
     no_hostname
     [[(''name'', JStr ''Acme'')], [(''name'', JStr ''Bolt'')], [(''name'', JStr ''Core Design'')],
      [(''name'', JStr ''Dune'')], [(''name'', JStr ''Elm'')], [(''name'', JStr ''Fir'')]]
   = Inr ([[(''name'', JStr ''Acme''), (''greenhouse_slug'', JStr ''acme''),
            (''lever_slug'', JStr ''acme'')],
           [(''name'', JStr ''Bolt''), (''lever_slug'', JStr ''bolt'')],
           [(''name'', JStr ''Core Design''), (''greenhouse_slug'', JStr ''core'')],
           [(''name'', JStr ''Dune''), (''greenhouse_slug'', JStr ''dune'')],
           [(''name'', JStr ''Elm''), (''greenhouse_slug'', JStr ''elm'')],
           [(''name'', JStr ''Fir''), (''greenhouse_slug'', JStr ''fir'')]],
          \<lparr>greenhouse_count = 1, lever_count = 1, noMatch_count = 4\<rparr>)"
  by code_simp

theorem counters_partition_witness:
  "discover_main
     (\<lambda>b. if b = ''G'' then Some (JObj [(''jobs'', JArr [])])
           else if b = ''L'' then Some (JArr []) else None)
     (\<lambda>u. if u = greenhouse_url ''acme'' then Responded 200 ''G''
           else if u = lever_url ''acme'' \<or> u = lever_url ''bolt'' then Responded 200 ''L''
           else Responded 404 ''L'')
     no_hostname
     [[(''name'', JStr ''Acme'')], [(''name'', JStr ''Bolt'')], [(''name'', JStr ''Core Design'')],
      [(''name'', JStr ''Dune'')], [(''name'', JStr ''Elm'')], [(''name'', JStr ''Fir'')]]
   = Inr ([[(''name'', JStr ''Acme''), (''greenhouse_slug'', JStr ''acme''),
            (''lever_slug'', JStr ''acme'')],
           [(''name'', JStr ''Bolt''), (''lever_slug'', JStr ''bolt'')],
           [(''name'', JStr ''Core Design''), (''greenhouse_slug'', JStr ''core'')],
           [(''name'', JStr ''Dune''), (''greenhouse_slug'', JStr ''dune'')],
           [(''name'', JStr ''Elm''), (''greenhouse_slug'', JStr ''elm'')],
           [(''name'', JStr ''Fir''), (''greenhouse_slug'', JStr ''fir'')]],
          \<lparr>greenhouse_count = 1, lever_count = 1, noMatch_count = 4\<rparr>)
   \<and> greenhouse_count \<lparr>greenhouse_count = 1, lever_count = 1, noMatch_count = 4\<rparr>
       + lever_count \<lparr>greenhouse_count = 1, lever_count = 1, noMatch_count = 4\<rparr>
       + noMatch_count \<lparr>greenhouse_count = 1, lever_count = 1, noMatch_count = 4\<rparr>
     = length [[(''name'', JStr ''Acme'')], [(''name'', JStr ''Bolt'')], [(''name'', JStr ''Core Design'')],
      [(''name'', JStr ''Dune'')], [(''name'', JStr ''Elm'')], [(''name'', JStr ''Fir'')]]"
  using counters_partition [OF discover_six_firms] discover_six_firms
  by blast
section \<open>Properties of the job fetcher\<close>

lemma batchProcess_fold: "batchProcess fn items st = fold fn items st"
proof (induction fn items st rule: batchProcess.induct)
  case (1 fn items st)
  show ?case
  proof (cases "items = []")
    case True
    then show ?thesis by (simp add: batchProcess.simps)
  next
    case False
    have "fold fn (take CONCURRENCY items @ drop CONCURRENCY items) st
            = fold fn (drop CONCURRENCY items) (fold fn (take CONCURRENCY items) st)"
      by (simp only: fold_append comp_apply)
    then have "fold fn items st
            = fold fn (drop CONCURRENCY items) (fold fn (take CONCURRENCY items) st)"
      by simp
    with "1.IH" [OF False] False show ?thesis
      by (simp add: batchProcess.simps [of fn items])
  qed
qed

lemma fold_update_nth:
  assumes "distinct ixs"
  shows "length (fold (\<lambda>i xs. xs[i := g (xs ! i)]) ixs fs) = length fs
       \<and> (\<forall>j < length fs. fold (\<lambda>i xs. xs[i := g (xs ! i)]) ixs fs ! j
              = (if j \<in> set ixs then g (fs ! j) else fs ! j))"
  using assms
proof (induction ixs arbitrary: fs)
  case Nil
  then show ?case by simp
next
  case (Cons i ixs)
  then have d: "distinct ixs" and ni: "i \<notin> set ixs" by simp_all
  note IH = Cons.IH [OF d, of "fs[i := g (fs ! i)]"]
  show ?case
  proof (intro conjI allI impI)
    show "length (fold (\<lambda>i xs. xs[i := g (xs ! i)]) (i # ixs) fs) = length fs"
      using IH by simp
  next
    fix j assume j: "j < length fs"
    show "fold (\<lambda>i xs. xs[i := g (xs ! i)]) (i # ixs) fs ! j
            = (if j \<in> set (i # ixs) then g (fs ! j) else fs ! j)"
    proof (cases "j = i")
      case True
      with IH j ni show ?thesis by simp
    next
      case False
      with IH j show ?thesis by simp
    qed
  qed
qed

lemma greenhouse_step_update:
  "greenhouse_step w now =
     (\<lambda>i xs. xs[i := (\<lambda>f. f\<lparr>jobs := jobs f @ fetchGreenhouseJobs w now (obj_get (props f) ''greenhouse_slug'')\<rparr>) (xs ! i)])"
  by (rule ext, rule ext) (simp add: greenhouse_step_def Let_def)

lemma lever_step_update:
  "lever_step w now =
     (\<lambda>i xs. xs[i := (\<lambda>f. f\<lparr>jobs := jobs f @ fetchLeverJobs w now (obj_get (props f) ''lever_slug'')\<rparr>) (xs ! i)])"
  by (rule ext, rule ext) (simp add: lever_step_def Let_def)

lemma firms_with_distinct: "distinct (firms_with k firms)"
  by (simp add: firms_with_def)

lemma firms_with_mem:
  "j < length firms \<Longrightarrow> j \<in> set (firms_with k firms) \<longleftrightarrow> truthy (obj_get (props (firms ! j)) k)"
  by (simp add: firms_with_def)

lemma fetchGreenhouseJobs_falsy: "\<not> truthy s \<Longrightarrow> fetchGreenhouseJobs w now s = []"
  by (simp add: fetchGreenhouseJobs_def)

lemma fetchLeverJobs_falsy: "\<not> truthy s \<Longrightarrow> fetchLeverJobs w now s = []"
  by (simp add: fetchLeverJobs_def)

lemma greenhouse_pass_map:
  "greenhouse_pass w now firms =
     map (\<lambda>f. f\<lparr>jobs := jobs f @ fetchGreenhouseJobs w now (obj_get (props f) ''greenhouse_slug'')\<rparr>) firms"
proof (rule nth_equalityI)
  note F = fold_update_nth [where ixs = "firms_with ''greenhouse_slug'' firms" and fs = firms
      and g = "\<lambda>f. f\<lparr>jobs := jobs f @ fetchGreenhouseJobs w now (obj_get (props f) ''greenhouse_slug'')\<rparr>",
      OF firms_with_distinct]
  show "length (greenhouse_pass w now firms) = length (map (\<lambda>f. f\<lparr>jobs := jobs f @ fetchGreenhouseJobs w now (obj_get (props f) ''greenhouse_slug'')\<rparr>) firms)"
    using F by (simp add: greenhouse_pass_def batchProcess_fold greenhouse_step_update)
next
  note F = fold_update_nth [where ixs = "firms_with ''greenhouse_slug'' firms" and fs = firms
      and g = "\<lambda>f. f\<lparr>jobs := jobs f @ fetchGreenhouseJobs w now (obj_get (props f) ''greenhouse_slug'')\<rparr>",
      OF firms_with_distinct]
  fix j assume "j < length (greenhouse_pass w now firms)"
  then have j: "j < length firms"
    using F by (simp add: greenhouse_pass_def batchProcess_fold greenhouse_step_update)
  show "greenhouse_pass w now firms ! j = map (\<lambda>f. f\<lparr>jobs := jobs f @ fetchGreenhouseJobs w now (obj_get (props f) ''greenhouse_slug'')\<rparr>) firms ! j"
    using F j
    by (simp add: greenhouse_pass_def batchProcess_fold greenhouse_step_update firms_with_mem fetchGreenhouseJobs_falsy)
qed

lemma lever_pass_map:
  "lever_pass w now firms =
     map (\<lambda>f. f\<lparr>jobs := jobs f @ fetchLeverJobs w now (obj_get (props f) ''lever_slug'')\<rparr>) firms"
proof (rule nth_equalityI)
  note F = fold_update_nth [where ixs = "firms_with ''lever_slug'' firms" and fs = firms
      and g = "\<lambda>f. f\<lparr>jobs := jobs f @ fetchLeverJobs w now (obj_get (props f) ''lever_slug'')\<rparr>",
      OF firms_with_distinct]
  show "length (lever_pass w now firms) = length (map (\<lambda>f. f\<lparr>jobs := jobs f @ fetchLeverJobs w now (obj_get (props f) ''lever_slug'')\<rparr>) firms)"
    using F by (simp add: lever_pass_def batchProcess_fold lever_step_update)
next
  note F = fold_update_nth [where ixs = "firms_with ''lever_slug'' firms" and fs = firms
      and g = "\<lambda>f. f\<lparr>jobs := jobs f @ fetchLeverJobs w now (obj_get (props f) ''lever_slug'')\<rparr>",
      OF firms_with_distinct]
  fix j assume "j < length (lever_pass w now firms)"
  then have j: "j < length firms"
    using F by (simp add: lever_pass_def batchProcess_fold lever_step_update)
  show "lever_pass w now firms ! j = map (\<lambda>f. f\<lparr>jobs := jobs f @ fetchLeverJobs w now (obj_get (props f) ''lever_slug'')\<rparr>) firms ! j"
    using F j
    by (simp add: lever_pass_def batchProcess_fold lever_step_update firms_with_mem fetchLeverJobs_falsy)
qed

lemma provider_passes_map:
  "provider_passes w now base =
     map (\<lambda>f. \<lparr>props = f,
               jobs = fetchGreenhouseJobs w now (obj_get f ''greenhouse_slug'')
                      @ fetchLeverJobs w now (obj_get f ''lever_slug'')\<rparr>) base"
  by (simp add: provider_passes_def greenhouse_pass_map lever_pass_map comp_def)

text \<open>The example runs, evaluated.\<close>

lemma example_run:
  "main example_world (Some ''key'') 1704153570000 example_files = Inr (example_after ''Today'')"
  by code_simp

lemma example_rerun:
  "main example_world (Some ''key'') 1704153630000 (example_after ''Today'') = Inr (example_after ''1 day ago'')"
  by code_simp

lemma example_run_matched:
  "main example_world_matched (Some ''key'') 1704153570000 (example_after ''Today'') = Inr (example_after ''Today'')"
  by code_simp

lemma example_unmatched:
  "matchJSearchToFirms example_world_matched 1704153570000 (fetchJSearchJobs example_world_matched (str_or (Some ''key'') []))
     (provider_passes example_world_matched 1704153570000 (firms_base (example_after ''Today'')))
   = Inr ([(2, \<lparr>title = ''Planner'', job_type = JStr ''Full-time'',
               salary = ''$61K'' @ en_dash @ ''$80K'', posted = ''Recently'', url = ''https://js/1''\<rparr>)], [])"
  by code_simp

lemma example_job_sets:
  "map set (output_jobs (example_after ''Today'')) \<noteq> map set (output_jobs (example_after ''1 day ago''))"
  by (simp add: output_jobs_def example_after_def example_output_def obj_get_def)

text \<open>
  Claim C9. The Greenhouse pass and the Lever pass keep the number of firms and the
  decoded properties of every firm; the only part of a firm they touch is its job list,
  to which the jobs fetched for the firm's own slug are appended.
  A firm whose \<^verbatim>\<open>greenhouse_slug\<close> is missing or falsy is left exactly as it was by
  the Greenhouse pass, and likewise for \<^verbatim>\<open>lever_slug\<close> and the Lever pass.
\<close>

theorem pass_frame:
  "length (greenhouse_pass w now firms) = length firms
   \<and> length (lever_pass w now firms) = length firms
   \<and> (\<forall>i < length firms.
        props (greenhouse_pass w now firms ! i) = props (firms ! i)
        \<and> jobs (greenhouse_pass w now firms ! i)
            = jobs (firms ! i) @ fetchGreenhouseJobs w now (obj_get (props (firms ! i)) ''greenhouse_slug'')
        \<and> (\<not> truthy (obj_get (props (firms ! i)) ''greenhouse_slug'')
             \<longrightarrow> greenhouse_pass w now firms ! i = firms ! i)
        \<and> props (lever_pass w now firms ! i) = props (firms ! i)
        \<and> jobs (lever_pass w now firms ! i)
            = jobs (firms ! i) @ fetchLeverJobs w now (obj_get (props (firms ! i)) ''lever_slug'')
        \<and> (\<not> truthy (obj_get (props (firms ! i)) ''lever_slug'')
             \<longrightarrow> lever_pass w now firms ! i = firms ! i))"
  by (simp add: greenhouse_pass_map lever_pass_map fetchGreenhouseJobs_falsy fetchLeverJobs_falsy)

text \<open>The two passes on the three firms of the example, after line 235: the second firm
  has no Greenhouse slug and the first no Lever slug.\<close>

theorem pass_frame_witness:
  "length (greenhouse_pass example_world 1704153570000 (map (\<lambda>f. \<lparr>props = f, jobs = []\<rparr>) example_base)) = 3
   \<and> props (greenhouse_pass example_world 1704153570000 (map (\<lambda>f. \<lparr>props = f, jobs = []\<rparr>) example_base) ! 0)
       = example_base ! 0
   \<and> greenhouse_pass example_world 1704153570000 (map (\<lambda>f. \<lparr>props = f, jobs = []\<rparr>) example_base) ! 1
       = \<lparr>props = example_base ! 1, jobs = []\<rparr>
   \<and> lever_pass example_world 1704153570000 (map (\<lambda>f. \<lparr>props = f, jobs = []\<rparr>) example_base) ! 0
       = \<lparr>props = example_base ! 0, jobs = []\<rparr>"
proof -
  let ?F = "map (\<lambda>f. \<lparr>props = f, jobs = []\<rparr>) example_base"
  have len: "length ?F = 3" by (simp add: example_base_def)
  have f0: "?F ! 0 = \<lparr>props = example_base ! 0, jobs = []\<rparr>"
    and f1: "?F ! 1 = \<lparr>props = example_base ! 1, jobs = []\<rparr>"
    by (simp_all add: example_base_def)
  have g1: "\<not> truthy (obj_get (props (?F ! 1)) ''greenhouse_slug'')"
    by (simp add: example_base_def obj_get_def)
  have l0: "\<not> truthy (obj_get (props (?F ! 0)) ''lever_slug'')"
    by (simp add: example_base_def obj_get_def)
  note P = pass_frame [of example_world 1704153570000 ?F]
  from P have L: "length (greenhouse_pass example_world 1704153570000 ?F) = length ?F" by (rule conjunct1)
  from P have A: "\<forall>i < length ?F.
        props (greenhouse_pass example_world 1704153570000 ?F ! i) = props (?F ! i)
        \<and> jobs (greenhouse_pass example_world 1704153570000 ?F ! i)
            = jobs (?F ! i) @ fetchGreenhouseJobs example_world 1704153570000 (obj_get (props (?F ! i)) ''greenhouse_slug'')
        \<and> (\<not> truthy (obj_get (props (?F ! i)) ''greenhouse_slug'')
             \<longrightarrow> greenhouse_pass example_world 1704153570000 ?F ! i = ?F ! i)
        \<and> props (lever_pass example_world 1704153570000 ?F ! i) = props (?F ! i)
        \<and> jobs (lever_pass example_world 1704153570000 ?F ! i)
            = jobs (?F ! i) @ fetchLeverJobs example_world 1704153570000 (obj_get (props (?F ! i)) ''lever_slug'')
        \<and> (\<not> truthy (obj_get (props (?F ! i)) ''lever_slug'')
             \<longrightarrow> lever_pass example_world 1704153570000 ?F ! i = ?F ! i)"
    by (rule conjunct2 [THEN conjunct2])
  have i0: "0 < length ?F" and i1: "1 < length ?F" by (simp_all only: len)
  from A [rule_format, OF i0] l0
  have a0: "props (greenhouse_pass example_world 1704153570000 ?F ! 0) = props (?F ! 0)"
    "lever_pass example_world 1704153570000 ?F ! 0 = ?F ! 0" by blast+
  from A [rule_format, OF i1] g1
  have a1: "greenhouse_pass example_world 1704153570000 ?F ! 1 = ?F ! 1" by blast
  show ?thesis
    using L len a0 a1 by (simp only: f0 f1 firm.select_convs simp_thms)
qed

lemma add_matched_eq:
  "add_matched m fs =
     (if list_ex (\<lambda>j. title j = title (snd m)) (jobs (fs ! fst m)) then fs
      else fs[fst m := (fs ! fst m)\<lparr>jobs := jobs (fs ! fst m) @ [snd m]\<rparr>])"
  by (simp add: add_matched_def Let_def)

lemma add_matched_shape:
  "length (add_matched m fs) = length fs
   \<and> (\<forall>i < length fs. props (add_matched m fs ! i) = props (fs ! i)
        \<and> (\<exists>extra. jobs (add_matched m fs ! i) = jobs (fs ! i) @ extra \<and> set extra \<subseteq> {snd m}))"
proof (cases "list_ex (\<lambda>j. title j = title (snd m)) (jobs (fs ! fst m))")
  case True
  then have "add_matched m fs = fs" by (simp add: add_matched_eq)
  then show ?thesis by simp
next
  case False
  then have eq: "add_matched m fs = fs[fst m := (fs ! fst m)\<lparr>jobs := jobs (fs ! fst m) @ [snd m]\<rparr>]"
    by (simp add: add_matched_eq)
  show ?thesis
  proof (intro conjI allI impI)
    show "length (add_matched m fs) = length fs" by (simp add: eq)
  next
    fix i assume i: "i < length fs"
    show "props (add_matched m fs ! i) = props (fs ! i)"
      using i by (cases "i = fst m") (simp_all add: eq)
    show "\<exists>extra. jobs (add_matched m fs ! i) = jobs (fs ! i) @ extra \<and> set extra \<subseteq> {snd m}"
    proof (cases "i = fst m")
      case True
      with i have "jobs (add_matched m fs ! i) = jobs (fs ! i) @ [snd m]" by (simp add: eq)
      then show ?thesis by (intro exI [of _ "[snd m]"]) simp
    next
      case False
      with i have "jobs (add_matched m fs ! i) = jobs (fs ! i) @ []" by (simp add: eq)
      then show ?thesis by (intro exI [of _ "[]"]) simp
    qed
  qed
qed

lemma fold_add_matched_shape:
  "length (fold add_matched ms fs) = length fs
   \<and> (\<forall>i < length fs. props (fold add_matched ms fs ! i) = props (fs ! i)
        \<and> (\<exists>extra. jobs (fold add_matched ms fs ! i) = jobs (fs ! i) @ extra
              \<and> set extra \<subseteq> snd ` set ms))"
proof (induction ms arbitrary: fs)
  case Nil
  then show ?case by simp
next
  case (Cons m ms)
  note A = add_matched_shape [of m fs]
  note IH = Cons.IH [of "add_matched m fs"]
  show ?case
  proof (intro conjI allI impI)
    show "length (fold add_matched (m # ms) fs) = length fs"
      using A IH by simp
  next
    fix i assume i: "i < length fs"
    show "props (fold add_matched (m # ms) fs ! i) = props (fs ! i)"
      using A IH i by simp
    from A i obtain e1 where e1: "jobs (add_matched m fs ! i) = jobs (fs ! i) @ e1"
      "set e1 \<subseteq> {snd m}" by blast
    from IH A i obtain e2 where e2:
      "jobs (fold add_matched ms (add_matched m fs) ! i) = jobs (add_matched m fs ! i) @ e2"
      "set e2 \<subseteq> snd ` set ms" by auto
    have "jobs (fold add_matched (m # ms) fs ! i) = jobs (fs ! i) @ (e1 @ e2)"
      using e1 e2 by simp
    moreover have "set (e1 @ e2) \<subseteq> snd ` set (m # ms)"
      using e1 e2 by auto
    ultimately show "\<exists>extra. jobs (fold add_matched (m # ms) fs ! i) = jobs (fs ! i) @ extra
              \<and> set extra \<subseteq> snd ` set (m # ms)"
      by blast
  qed
qed

lemma fetchJSearchJobs_no_key: "fetchJSearchJobs w [] = []"
  by (simp add: fetchJSearchJobs_def)

lemma main_no_key:
  "str_or key_env [] = [] \<Longrightarrow>
   main w key_env now fs = Inr (write_output (provider_passes w now (firms_base fs)) fs)"
  by (simp add: main_def Let_def fetchJSearchJobs_no_key)

lemma main_eq:
  "main w key_env now fs =
     (if fetchJSearchJobs w (str_or key_env []) = []
      then Inr (write_output (provider_passes w now (firms_base fs)) fs)
      else (case matchJSearchToFirms w now (fetchJSearchJobs w (str_or key_env []))
                   (provider_passes w now (firms_base fs)) of
              Inl e \<Rightarrow> Inl e
            | Inr (matched, unmatched) \<Rightarrow>
                Inr (write_output (fold add_matched matched (provider_passes w now (firms_base fs)))
                       (if unmatched = [] then fs else write_discoveries unmatched fs))))"
  by (simp add: main_def Let_def split: sum.splits prod.splits)

lemma main_Inr:
  assumes "main w key_env now fs = Inr fs'"
  shows "\<exists>matched unmatched.
           fs' = write_output (fold add_matched matched (provider_passes w now (firms_base fs)))
                   (if unmatched = [] then fs else write_discoveries unmatched fs)"
proof (cases "fetchJSearchJobs w (str_or key_env []) = []")
  case True
  with assms have "fs' = write_output (fold add_matched [] (provider_passes w now (firms_base fs)))
                   (if ([] :: discovery list) = [] then fs else write_discoveries [] fs)"
    by (simp add: main_eq)
  then show ?thesis by blast
next
  case False
  show ?thesis
  proof (cases "matchJSearchToFirms w now (fetchJSearchJobs w (str_or key_env []))
                   (provider_passes w now (firms_base fs))")
    case (Inl e)
    with assms False show ?thesis by (simp add: main_eq)
  next
    case (Inr p)
    obtain matched unmatched where p: "p = (matched, unmatched)" by (cases p)
    from assms False Inr p
    have "fs' = write_output (fold add_matched matched (provider_passes w now (firms_base fs)))
                   (if unmatched = [] then fs else write_discoveries unmatched fs)"
      by (simp add: main_eq)
    then show ?thesis by blast
  qed
qed

lemma serialized_keys:
  "\<exists>kvs'. serialized kvs = JObj kvs' \<and> fst ` set kvs' \<subseteq> fst ` set kvs"
  by (auto simp: serialized_def)

lemma output_record_keys:
  "\<exists>kvs. output_record f = JObj kvs
     \<and> fst ` set kvs \<subseteq> {''id'', ''name'', ''city'', ''state'', ''lat'', ''lng'', ''size'',
                          ''discipline'', ''specialties'', ''jobs'', ''website'', ''about''}"
proof -
  let ?lit = "[(''id'', obj_get (props f) ''id''),
        (''name'', obj_get (props f) ''name''),
        (''city'', obj_get (props f) ''city''),
        (''state'', obj_get (props f) ''state''),
        (''lat'', obj_get (props f) ''lat''),
        (''lng'', obj_get (props f) ''lng''),
        (''size'', obj_get (props f) ''size''),
        (''discipline'', obj_get (props f) ''discipline''),
        (''specialties'', obj_get (props f) ''specialties''),
        (''jobs'', JArr (map job_js (jobs f))),
        (''website'', obj_get (props f) ''website''),
        (''about'', obj_get (props f) ''about'')]"
  from serialized_keys [of ?lit] obtain kvs where
    k: "serialized ?lit = JObj kvs" "fst ` set kvs \<subseteq> fst ` set ?lit" by blast
  have "fst ` set ?lit = {''id'', ''name'', ''city'', ''state'', ''lat'', ''lng'', ''size'',
                          ''discipline'', ''specialties'', ''jobs'', ''website'', ''about''}"
    by (simp only: list.set image_insert image_empty fst_conv)
  with k show ?thesis unfolding output_record_def by blast
qed

lemma output_file_write_output:
  "output_file (write_output firms fs) = Some \<lparr>indent = 0, content = JArr (map output_record firms)\<rparr>"
  by (simp add: write_output_def)

lemma discoveries_write_output:
  "discoveries_file (write_output firms fs) = discoveries_file fs"
  by (simp add: write_output_def)

lemma length_provider_passes: "length (provider_passes w now base) = length base"
  by (simp add: provider_passes_map)

text \<open>
  Claim C4. A run of the fetcher that ends normally writes one record per firm of the
  firm database to the public output, and no record has a \<^verbatim>\<open>greenhouse_slug\<close> or a
  \<^verbatim>\<open>lever_slug\<close> key, whatever the firm database holds.
\<close>

theorem output_has_no_slug_keys:
  assumes "main w key_env now fs = Inr fs'"
  shows "\<exists>recs. output_file fs' = Some \<lparr>indent = 0, content = JArr recs\<rparr>
           \<and> length recs = length (firms_base fs)
           \<and> (\<forall>r \<in> set recs. \<exists>kvs. r = JObj kvs
                 \<and> ''greenhouse_slug'' \<notin> fst ` set kvs \<and> ''lever_slug'' \<notin> fst ` set kvs)"
proof -
  from main_Inr [OF assms] obtain firms' where
    out: "output_file fs' = Some \<lparr>indent = 0, content = JArr (map output_record firms')\<rparr>" and
    len: "length firms' = length (firms_base fs)"
    using fold_add_matched_shape
    by (auto simp: output_file_write_output length_provider_passes)
  have "\<forall>r \<in> set (map output_record firms'). \<exists>kvs. r = JObj kvs
          \<and> ''greenhouse_slug'' \<notin> fst ` set kvs \<and> ''lever_slug'' \<notin> fst ` set kvs"
  proof
    fix r assume "r \<in> set (map output_record firms')"
    then obtain f where r: "r = output_record f" by auto
    from output_record_keys [of f] obtain kvs where
      k: "output_record f = JObj kvs"
      "fst ` set kvs \<subseteq> {''id'', ''name'', ''city'', ''state'', ''lat'', ''lng'', ''size'',
                          ''discipline'', ''specialties'', ''jobs'', ''website'', ''about''}"
      by blast
    have "''greenhouse_slug'' \<notin> fst ` set kvs" "''lever_slug'' \<notin> fst ` set kvs"
      using k(2) by auto
    with r k(1) show "\<exists>kvs. r = JObj kvs
          \<and> ''greenhouse_slug'' \<notin> fst ` set kvs \<and> ''lever_slug'' \<notin> fst ` set kvs"
      by blast
  qed
  with out len show ?thesis by auto
qed

text \<open>The example run: its output has three records, none with a slug key, although
  two of the firms have one in the firm database.\<close>

theorem output_has_no_slug_keys_witness:
  "main example_world (Some ''key'') 1704153570000 example_files = Inr (example_after ''Today'')
   \<and> (\<exists>recs. output_file (example_after ''Today'') = Some \<lparr>indent = 0, content = JArr recs\<rparr>
           \<and> length recs = length (firms_base example_files)
           \<and> (\<forall>r \<in> set recs. \<exists>kvs. r = JObj kvs
                 \<and> ''greenhouse_slug'' \<notin> fst ` set kvs \<and> ''lever_slug'' \<notin> fst ` set kvs))"
  by (rule conjI [OF example_run output_has_no_slug_keys [OF example_run]])

text \<open>
  Claim C5. Without the credential (the variable unset or empty) the run ends normally,
  leaves the discoveries file alone and writes exactly the firms as the two provider
  passes left them: each firm's jobs are its Greenhouse jobs followed by its Lever jobs,
  none from the aggregator. With a credential, a run that ends normally writes firms
  whose properties are the same and whose job lists begin with these same jobs: the
  Greenhouse and Lever results do not depend on the credential.
\<close>

theorem missing_credential:
  "main w None now fs = Inr (write_output (provider_passes w now (firms_base fs)) fs)
   \<and> main w (Some []) now fs = Inr (write_output (provider_passes w now (firms_base fs)) fs)
   \<and> provider_passes w now (firms_base fs)
       = map (\<lambda>f. \<lparr>props = f,
                    jobs = fetchGreenhouseJobs w now (obj_get f ''greenhouse_slug'')
                           @ fetchLeverJobs w now (obj_get f ''lever_slug'')\<rparr>) (firms_base fs)
   \<and> (\<forall>key fs'. main w (Some key) now fs = Inr fs' \<longrightarrow>
        (\<exists>firms'. output_file fs' = Some \<lparr>indent = 0, content = JArr (map output_record firms')\<rparr>
           \<and> length firms' = length (firms_base fs)
           \<and> (\<forall>i < length (firms_base fs).
                props (firms' ! i) = props (provider_passes w now (firms_base fs) ! i)
                \<and> (\<exists>extra. jobs (firms' ! i)
                       = jobs (provider_passes w now (firms_base fs) ! i) @ extra))))"
proof (intro conjI allI impI)
  show "main w None now fs = Inr (write_output (provider_passes w now (firms_base fs)) fs)"
    by (rule main_no_key) (simp add: str_or_def)
  show "main w (Some []) now fs = Inr (write_output (provider_passes w now (firms_base fs)) fs)"
    by (rule main_no_key) (simp add: str_or_def)
  show "provider_passes w now (firms_base fs)
       = map (\<lambda>f. \<lparr>props = f,
                    jobs = fetchGreenhouseJobs w now (obj_get f ''greenhouse_slug'')
                           @ fetchLeverJobs w now (obj_get f ''lever_slug'')\<rparr>) (firms_base fs)"
    by (rule provider_passes_map)
next
  fix key fs' assume run: "main w (Some key) now fs = Inr fs'"
  from main_Inr [OF run] obtain matched unmatched where
    fs': "fs' = write_output (fold add_matched matched (provider_passes w now (firms_base fs)))
                   (if unmatched = [] then fs else write_discoveries unmatched fs)"
    by blast
  let ?pp = "provider_passes w now (firms_base fs)"
  let ?firms' = "fold add_matched matched ?pp"
  note S = fold_add_matched_shape [of matched ?pp]
  have "output_file fs' = Some \<lparr>indent = 0, content = JArr (map output_record ?firms')\<rparr>"
    by (simp add: fs' output_file_write_output)
  moreover have "length ?firms' = length (firms_base fs)"
    using S by (simp add: length_provider_passes)
  moreover have "\<forall>i < length (firms_base fs).
                props (?firms' ! i) = props (?pp ! i)
                \<and> (\<exists>extra. jobs (?firms' ! i) = jobs (?pp ! i) @ extra)"
    using S by (auto simp: length_provider_passes)
  ultimately show "\<exists>firms'. output_file fs' = Some \<lparr>indent = 0, content = JArr (map output_record firms')\<rparr>
           \<and> length firms' = length (firms_base fs)
           \<and> (\<forall>i < length (firms_base fs).
                props (firms' ! i) = props (provider_passes w now (firms_base fs) ! i)
                \<and> (\<exists>extra. jobs (firms' ! i)
                       = jobs (provider_passes w now (firms_base fs) ! i) @ extra))"
    by blast
qed

text \<open>The example without the key, and the run with the key measured against it.\<close>

theorem missing_credential_witness:
  "main example_world None 1704153570000 example_files
     = Inr (write_output (provider_passes example_world 1704153570000 (firms_base example_files)) example_files)
   \<and> (\<exists>firms'. output_file (example_after ''Today'')
                   = Some \<lparr>indent = 0, content = JArr (map output_record firms')\<rparr>
           \<and> length firms' = length (firms_base example_files)
           \<and> (\<forall>i < length (firms_base example_files).
                props (firms' ! i) = props (provider_passes example_world 1704153570000 (firms_base example_files) ! i)
                \<and> (\<exists>extra. jobs (firms' ! i)
                       = jobs (provider_passes example_world 1704153570000 (firms_base example_files) ! i) @ extra)))"
proof -
  note M = missing_credential [of example_world 1704153570000 example_files]
  from M have c1: "main example_world None 1704153570000 example_files
     = Inr (write_output (provider_passes example_world 1704153570000 (firms_base example_files)) example_files)"
    by (rule conjunct1)
  from M have c4: "\<forall>key fs'. main example_world (Some key) 1704153570000 example_files = Inr fs' \<longrightarrow>
        (\<exists>firms'. output_file fs' = Some \<lparr>indent = 0, content = JArr (map output_record firms')\<rparr>
           \<and> length firms' = length (firms_base example_files)
           \<and> (\<forall>i < length (firms_base example_files).
                props (firms' ! i) = props (provider_passes example_world 1704153570000 (firms_base example_files) ! i)
                \<and> (\<exists>extra. jobs (firms' ! i)
                       = jobs (provider_passes example_world 1704153570000 (firms_base example_files) ! i) @ extra)))"
    by (rule conjunct2 [THEN conjunct2, THEN conjunct2])
  from c1 c4 [rule_format, OF example_run] show ?thesis by (rule conjI)
qed

text \<open>
  Claim C8, as the code has it. After a run that ends normally the discoveries file
  holds exactly the unmatched results of this run, written with indent 2 over whatever
  was there, when the run has at least one unmatched result; when it has none (the pass
  disabled, no raw result, or every result matched) the file is not written and keeps
  what it held before the run.
\<close>

theorem discoveries_written:
  assumes "main w key_env now fs = Inr fs'"
  shows "discoveries_file fs' =
           (case matchJSearchToFirms w now (fetchJSearchJobs w (str_or key_env []))
                   (provider_passes w now (firms_base fs)) of
              Inl e \<Rightarrow> discoveries_file fs
            | Inr (matched, unmatched) \<Rightarrow>
                if unmatched = [] then discoveries_file fs
                else Some \<lparr>indent = 2, content = JArr (map discovery_js unmatched)\<rparr>)"
proof (cases "fetchJSearchJobs w (str_or key_env []) = []")
  case True
  with assms have "fs' = write_output (provider_passes w now (firms_base fs)) fs"
    by (simp add: main_def Let_def)
  with True show ?thesis
    by (simp add: discoveries_write_output matchJSearchToFirms_def split: sum.splits)
next
  case False
  with assms show ?thesis
    by (auto simp: main_def Let_def discoveries_write_output write_discoveries_def
        split: sum.splits prod.splits if_splits)
qed

text \<open>The example run has one unmatched result, and the discoveries file holds it.\<close>

theorem discoveries_written_witness:
  "main example_world (Some ''key'') 1704153570000 example_files = Inr (example_after ''Today'')
   \<and> discoveries_file (example_after ''Today'') =
       (case matchJSearchToFirms example_world 1704153570000 (fetchJSearchJobs example_world (str_or (Some ''key'') []))
               (provider_passes example_world 1704153570000 (firms_base example_files)) of
          Inl e \<Rightarrow> discoveries_file example_files
        | Inr (matched, unmatched) \<Rightarrow>
            if unmatched = [] then discoveries_file example_files
            else Some \<lparr>indent = 2, content = JArr (map discovery_js unmatched)\<rparr>)"
  by (rule conjI [OF example_run discoveries_written [OF example_run]])

text \<open>
  The claim as the specification words it: after a run with the aggregator pass enabled
  the discoveries file holds exactly the unmatched results of that run. In the run below
  the key is set, the aggregator answers, its one result is matched, so the run has no
  unmatched result; the file still holds the discovery of the run before.
\<close>

theorem discoveries_stale_counterexample:
  "main example_world_matched (Some ''key'') 1704153570000 (example_after ''Today'') = Inr (example_after ''Today'')
   \<and> snd (projr (matchJSearchToFirms example_world_matched 1704153570000
               (fetchJSearchJobs example_world_matched (str_or (Some ''key'') []))
               (provider_passes example_world_matched 1704153570000 (firms_base (example_after ''Today''))))) = []
   \<and> discoveries_file (example_after ''Today'')
       \<noteq> Some \<lparr>indent = 2, content = JArr (map discovery_js [])\<rparr>"
proof (intro conjI)
  show "main example_world_matched (Some ''key'') 1704153570000 (example_after ''Today'') = Inr (example_after ''Today'')"
    by (rule example_run_matched)
  show "snd (projr (matchJSearchToFirms example_world_matched 1704153570000
               (fetchJSearchJobs example_world_matched (str_or (Some ''key'') []))
               (provider_passes example_world_matched 1704153570000 (firms_base (example_after ''Today''))))) = []"
    by (simp only: example_unmatched sum.sel snd_conv)
  show "discoveries_file (example_after ''Today'')
       \<noteq> Some \<lparr>indent = 2, content = JArr (map discovery_js [])\<rparr>"
    by (simp add: example_after_def example_discoveries_def)
qed

lemma to_lower_idem: "to_lower (to_lower c) = to_lower c"
  by (simp add: to_lower_def)

lemma toLowerCase_idem: "toLowerCase (toLowerCase s) = toLowerCase s"
  by (simp add: toLowerCase_def to_lower_idem)

lemma toLowerCase_Nil: "toLowerCase [] = []"
  by (simp add: toLowerCase_def)

lemma capital_codes:
  "(c \<in> set ''ABCDEFGHIJKLMNOPQRSTUVWXYZ'') = (65 \<le> (of_char c :: nat) \<and> (of_char c :: nat) \<le> 90)"
proof
  assume "c \<in> set ''ABCDEFGHIJKLMNOPQRSTUVWXYZ''"
  then show "65 \<le> (of_char c :: nat) \<and> (of_char c :: nat) \<le> 90"
    by auto
next
  assume range: "65 \<le> (of_char c :: nat) \<and> (of_char c :: nat) \<le> 90"
  then have "(of_char c :: nat) \<in> {65 ..< 91}" by auto
  then have "(of_char c :: nat) \<in> set [65 ..< 91]" by (simp only: set_upt)
  then have "char_of (of_char c :: nat) \<in> char_of ` set [65 ..< (91 :: nat)]" by (rule imageI)
  then have "c \<in> char_of ` set [65 ..< (91 :: nat)]" by simp
  also have "char_of ` set [65 ..< (91 :: nat)] = set (map char_of [65 ..< (91 :: nat)])" by simp
  also have "map char_of [65 ..< (91 :: nat)] = ''ABCDEFGHIJKLMNOPQRSTUVWXYZ''"
    by code_simp
  finally show "c \<in> set ''ABCDEFGHIJKLMNOPQRSTUVWXYZ''" .
qed

lemma to_lower_capital:
  "c \<in> set ''ABCDEFGHIJKLMNOPQRSTUVWXYZ'' \<Longrightarrow> (of_char (to_lower c) :: nat) = of_char c + 32"
  by (auto simp: to_lower_def)

lemma to_lower_other:
  "c \<notin> set ''ABCDEFGHIJKLMNOPQRSTUVWXYZ'' \<Longrightarrow> to_lower c = c"
  by (auto simp: to_lower_def)

lemma to_lower_same_letter:
  assumes "\<not> (65 \<le> (of_char k :: nat) \<and> (of_char k :: nat) \<le> 90)"
  shows "(to_lower c = k) = same_letter c k"
proof (cases "c \<in> set ''ABCDEFGHIJKLMNOPQRSTUVWXYZ''")
  case True
  then have range: "65 \<le> (of_char c :: nat) \<and> (of_char c :: nat) \<le> 90"
    using capital_codes [of c] by blast
  have low: "(of_char (to_lower c) :: nat) = of_char c + 32"
    using True by (rule to_lower_capital)
  have ck: "c \<noteq> k" using range assms by auto
  have "(to_lower c = k) = ((of_char (to_lower c) :: nat) = of_char k)"
    by simp
  also have "\<dots> = ((of_char k :: nat) = of_char c + 32)"
    using low by auto
  also have "\<dots> = same_letter c k"
    using range ck by (simp add: same_letter_def)
  finally show ?thesis .
next
  case False
  have small: "\<not> (65 \<le> (of_char c :: nat) \<and> (of_char c :: nat) \<le> 90)"
    using False capital_codes [of c] by blast
  have "to_lower c = c" using False by (rule to_lower_other)
  with small show ?thesis
    by (auto simp: same_letter_def)
qed

lemma startsWith_lower:
  "\<forall>k \<in> set w. \<not> (65 \<le> (of_char k :: nat) \<and> (of_char k :: nat) \<le> 90)
   \<Longrightarrow> startsWith (toLowerCase s) w = reads_at s w"
proof (induction s w rule: reads_at.induct)
  case (1 s)
  then show ?case by (simp add: startsWith_def)
next
  case (2 k ks)
  then show ?case by (simp add: startsWith_def toLowerCase_def)
next
  case (3 c cs k ks)
  then have "startsWith (toLowerCase cs) ks = reads_at cs ks" by simp
  moreover have "(to_lower c = k) = same_letter c k"
    using 3(2) by (simp add: to_lower_same_letter)
  ultimately show ?case
    by (simp add: startsWith_def toLowerCase_def)
qed

lemma includes_lower:
  assumes "\<forall>k \<in> set w. \<not> (65 \<le> (of_char k :: nat) \<and> (of_char k :: nat) \<le> 90)"
  shows "str_includes (toLowerCase s) w = mentions s w"
proof (induction s)
  case Nil
  then show ?case by (simp add: toLowerCase_def)
next
  case (Cons c cs)
  have "startsWith (toLowerCase (c # cs)) w = reads_at (c # cs) w"
    using assms by (rule startsWith_lower)
  then have "startsWith (to_lower c # toLowerCase cs) w = reads_at (c # cs) w"
    by (simp add: toLowerCase_def)
  with Cons show ?case
    by (simp add: toLowerCase_def)
qed

lemma test_intern_mentions: "test_intern s = mentions s ''intern''"
  by (simp add: test_intern_def includes_lower)

lemma test_contract_mentions: "test_contract s = mentions s ''contract''"
  by (simp add: test_contract_def includes_lower)

lemma regex_space_small:
  "sp \<in> set regex_space \<Longrightarrow>
   \<forall>k \<in> set (''part'' @ sp @ ''time''). \<not> (65 \<le> (of_char k :: nat) \<and> (of_char k :: nat) \<le> 90)"
  by (auto simp: regex_space_def)

lemma test_part_time_mentions: "test_part_time s = mentions_part_time s"
proof -
  have spaces: "(\<exists>sep \<in> set regex_space. str_includes (toLowerCase s) (''part'' @ sep @ ''time''))
      = (\<exists>sp \<in> set regex_space. mentions s (''part'' @ sp @ ''time''))"
    using includes_lower [OF regex_space_small] by blast
  have hyphen: "str_includes (toLowerCase s) (''part'' @ ''-'' @ ''time'') = mentions s ''part-time''"
    by (simp add: includes_lower)
  have plain: "str_includes (toLowerCase s) ''parttime'' = mentions s ''parttime''"
    by (simp add: includes_lower)
  have "test_part_time s
      = (str_includes (toLowerCase s) ''parttime''
         \<or> str_includes (toLowerCase s) (''part'' @ ''-'' @ ''time'')
         \<or> (\<exists>sep \<in> set regex_space. str_includes (toLowerCase s) (''part'' @ sep @ ''time'')))"
    by (simp only: test_part_time_def list_ex_iff list.set bex_simps)
  also have "\<dots> = mentions_part_time s"
    unfolding spaces hyphen plain mentions_part_time_def list_ex_iff by blast
  finally show ?thesis .
qed

lemma keyword_tests:
  "(if test_intern s then Some ''Internship''
    else if test_part_time s then Some ''Part-time''
    else if test_contract s then Some ''Contract''
    else None) = keyword_type s"
  by (simp only: keyword_type_def test_intern_mentions test_part_time_mentions
      test_contract_mentions)

lemma tests_lower:
  "test_intern (toLowerCase s) = test_intern s"
  "test_part_time (toLowerCase s) = test_part_time s"
  "test_contract (toLowerCase s) = test_contract s"
  by (simp_all add: test_intern_def test_part_time_def test_contract_def toLowerCase_idem)

lemma mentions_Nil: "mentions [] w = (w = [])"
  by simp

lemma keyword_type_Nil: "keyword_type [] = None"
  by (simp add: keyword_type_def mentions_part_time_def regex_space_def)

lemma truthy_carries_value: "truthy v = carries_value v"
  by (cases v) (auto simp: carries_value_def)

lemma metadata_type_find:
  "metadata_type ms
     = map_option meta_value (find (\<lambda>m. names_type m \<and> carries_value (meta_value m)) ms)"
proof (induction ms)
  case Nil
  then show ?case by simp
next
  case (Cons m ms)
  have eq: "(str_truthy (meta_name m) \<and> str_includes (toLowerCase (str_or (meta_name m) [])) ''type'')
        = names_type m"
    by (cases "meta_name m")
       (auto simp: names_type_def str_truthy_def str_or_def includes_lower)
  have "metadata_type (m # ms)
      = (if names_type m \<and> carries_value (meta_value m) then Some (meta_value m)
         else metadata_type ms)"
    unfolding metadata_type.simps eq [symmetric] truthy_carries_value by (simp only: conj_assoc)
  with Cons show ?case by simp
qed

lemma metadata_rule_eq:
  "(case gh_metadata j of None \<Rightarrow> None | Some ms \<Rightarrow> metadata_type ms) = spec_metadata_rule j"
  by (simp add: spec_metadata_rule_def metadata_type_find split: option.splits)

lemma department_keyword_eq: "keyword_type (str_or (dept_name d) []) = department_keyword d"
  by (simp add: department_keyword_def str_or_def keyword_type_Nil split: option.splits)

lemma department_rule_eq:
  "map_option JStr
     (case gh_departments j of
        None \<Rightarrow> None
      | Some ds \<Rightarrow>
          if 0 < length ds then
            (let dept = str_or (dept_name (hd ds)) [] in
             if test_intern dept then Some ''Internship''
             else if test_part_time dept then Some ''Part-time''
             else if test_contract dept then Some ''Contract''
             else None)
          else None) = spec_department_rule j"
  unfolding Let_def keyword_tests department_keyword_eq
  by (simp add: spec_department_rule_def split: option.splits list.splits)

lemma title_keyword_eq:
  "map_option JStr (keyword_type (str_or (gh_title j) [])) = spec_title_rule j"
  by (simp add: spec_title_rule_def str_or_def keyword_type_Nil split: option.splits)

lemma title_rule_eq:
  "(let t = toLowerCase (str_or (gh_title j) []) in
    if test_intern t then JStr ''Internship''
    else if test_part_time t then JStr ''Part-time''
    else if test_contract t then JStr ''Contract''
    else JStr ''Full-time'')
   = (case spec_title_rule j of Some v \<Rightarrow> v | None \<Rightarrow> JStr ''Full-time'')"
proof -
  have "(let t = toLowerCase (str_or (gh_title j) []) in
    if test_intern t then JStr ''Internship''
    else if test_part_time t then JStr ''Part-time''
    else if test_contract t then JStr ''Contract''
    else JStr ''Full-time'')
   = (case map_option JStr
             (if test_intern (str_or (gh_title j) []) then Some ''Internship''
              else if test_part_time (str_or (gh_title j) []) then Some ''Part-time''
              else if test_contract (str_or (gh_title j) []) then Some ''Contract''
              else None) of
        Some v \<Rightarrow> v | None \<Rightarrow> JStr ''Full-time'')"
    by (simp add: Let_def tests_lower)
  then show ?thesis
    by (simp only: keyword_tests title_keyword_eq)
qed

lemma case_map_option_JStr:
  "(case x of None \<Rightarrow> d | Some t \<Rightarrow> JStr t) = (case map_option JStr x of None \<Rightarrow> d | Some v \<Rightarrow> v)"
  by (cases x) simp_all

lemma extractType_spec: "extractType j = spec_job_type j"
  unfolding extractType_def metadata_rule_eq title_rule_eq case_map_option_JStr department_rule_eq
  by (simp add: spec_job_type_def split: option.splits)

text \<open>
  Claim C7. The type \<^verbatim>\<open>extractType\<close> gives a Greenhouse posting is the result of the
  first applicable rule of this list, or \<open>Full-time\<close> when none applies: the value of
  the first metadata field whose name contains \<open>type\<close> and that carries a value; the
  keyword in the name of the first department; the keyword in the title. A keyword is
  \<open>intern\<close>, \<open>part-time\<close> (also \<open>parttime\<close>, or with one white-space character for the
  hyphen) or \<open>contract\<close>, anywhere in the text and in any letter case, tried in this
  order. The fetched job carries that type. The type of a Lever job is its commitment,
  or \<open>Full-time\<close> when the commitment is absent or empty.
\<close>

theorem job_type_rules:
  "extractType j = spec_job_type j
   \<and> job_type (gh_job_of w now j) = spec_job_type j
   \<and> job_type (lv_job_of now l)
       = JStr (case lv_categories l of
                 None \<Rightarrow> ''Full-time''
               | Some c \<Rightarrow> (case commitment c of
                              None \<Rightarrow> ''Full-time''
                            | Some s \<Rightarrow> if s = [] then ''Full-time'' else s))"
  by (simp add: extractType_spec gh_job_of_def lv_job_of_def str_or_def split: option.splits)

text \<open>Postings decided by each rule and each keyword: a metadata field wins over the
  department; the first department decides with \<open>intern\<close> (inside \<open>Internships\<close>)
  and, after a \<open>Job type\<close> field without a value, with \<open>Part Time\<close>, over the title;
  the title decides with \<open>INTERN\<close>, with \<open>part-time\<close> and with \<open>Contract\<close>; nothing
  applies; and a Lever posting without commitment.\<close>

lemma example_spec_job_types:
  "spec_job_type \<lparr>gh_title = Some ''Senior Architect'',
                   gh_metadata = Some [\<lparr>meta_name = Some ''Internal id'', meta_value = JNum 7\<rparr>,
                                       \<lparr>meta_name = Some ''Employment Type'', meta_value = JStr ''Contract''\<rparr>],
                   gh_departments = Some [\<lparr>dept_name = Some ''Internships''\<rparr>],
                   gh_updated_at = None, gh_absolute_url = None\<rparr> = JStr ''Contract''"
  "spec_job_type \<lparr>gh_title = Some ''Designer'', gh_metadata = Some [],
                   gh_departments = Some [\<lparr>dept_name = Some ''Internships''\<rparr>],
                   gh_updated_at = None, gh_absolute_url = None\<rparr> = JStr ''Internship''"
  "spec_job_type \<lparr>gh_title = Some ''Intern'',
                   gh_metadata = Some [\<lparr>meta_name = Some ''Job type'', meta_value = JNull\<rparr>],
                   gh_departments = Some [\<lparr>dept_name = Some ''Part Time Staff''\<rparr>],
                   gh_updated_at = None, gh_absolute_url = None\<rparr> = JStr ''Part-time''"
  "spec_job_type \<lparr>gh_title = Some ''Summer INTERN, Landscape'', gh_metadata = None,
                   gh_departments = Some [\<lparr>dept_name = Some ''Studio''\<rparr>],
                   gh_updated_at = None, gh_absolute_url = None\<rparr> = JStr ''Internship''"
  "spec_job_type \<lparr>gh_title = Some ''Model maker (part-time)'', gh_metadata = None,
                   gh_departments = None, gh_updated_at = None,
                   gh_absolute_url = None\<rparr> = JStr ''Part-time''"
  "spec_job_type \<lparr>gh_title = Some ''Contract Drafter'', gh_metadata = None,
                   gh_departments = Some [], gh_updated_at = None,
                   gh_absolute_url = None\<rparr> = JStr ''Contract''"
  "spec_job_type \<lparr>gh_title = Some ''Architect'', gh_metadata = None, gh_departments = None,
                   gh_updated_at = None, gh_absolute_url = None\<rparr> = JStr ''Full-time''"
  by code_simp+

theorem job_type_rules_witness:
  "extractType \<lparr>gh_title = Some ''Senior Architect'',
                   gh_metadata = Some [\<lparr>meta_name = Some ''Internal id'', meta_value = JNum 7\<rparr>,
                                       \<lparr>meta_name = Some ''Employment Type'', meta_value = JStr ''Contract''\<rparr>],
                   gh_departments = Some [\<lparr>dept_name = Some ''Internships''\<rparr>],
                   gh_updated_at = None, gh_absolute_url = None\<rparr> = JStr ''Contract''
   \<and> extractType \<lparr>gh_title = Some ''Designer'', gh_metadata = Some [],
                   gh_departments = Some [\<lparr>dept_name = Some ''Internships''\<rparr>],
                   gh_updated_at = None, gh_absolute_url = None\<rparr> = JStr ''Internship''
   \<and> extractType \<lparr>gh_title = Some ''Intern'',
                   gh_metadata = Some [\<lparr>meta_name = Some ''Job type'', meta_value = JNull\<rparr>],
                   gh_departments = Some [\<lparr>dept_name = Some ''Part Time Staff''\<rparr>],
                   gh_updated_at = None, gh_absolute_url = None\<rparr> = JStr ''Part-time''
   \<and> extractType \<lparr>gh_title = Some ''Summer INTERN, Landscape'', gh_metadata = None,
                   gh_departments = Some [\<lparr>dept_name = Some ''Studio''\<rparr>],
                   gh_updated_at = None, gh_absolute_url = None\<rparr> = JStr ''Internship''
   \<and> extractType \<lparr>gh_title = Some ''Model maker (part-time)'', gh_metadata = None,
                   gh_departments = None, gh_updated_at = None,
                   gh_absolute_url = None\<rparr> = JStr ''Part-time''
   \<and> extractType \<lparr>gh_title = Some ''Contract Drafter'', gh_metadata = None,
                   gh_departments = Some [], gh_updated_at = None,
                   gh_absolute_url = None\<rparr> = JStr ''Contract''
   \<and> extractType \<lparr>gh_title = Some ''Architect'', gh_metadata = None, gh_departments = None,
                   gh_updated_at = None, gh_absolute_url = None\<rparr> = JStr ''Full-time''
   \<and> job_type (lv_job_of 0 \<lparr>lv_text = Some ''Architect'', lv_categories = Some \<lparr>commitment = None\<rparr>,
                             lv_createdAt = None, lv_hostedUrl = None\<rparr>) = JStr ''Full-time''"
  by (simp add: job_type_rules [THEN conjunct1] job_type_rules [THEN conjunct2, THEN conjunct2]
      example_spec_job_types)

text \<open>
  The rules word for word give another type on two postings. The first has a metadata
  field named \<open>Job Type\<close> whose value is \<^verbatim>\<open>null\<close>: returned as it is, the type would
  be \<^verbatim>\<open>null\<close>, and \<^verbatim>\<open>extractType\<close> passes the field over and ends at the default.
  The second has the keyword in the name of its second department, which
  \<^verbatim>\<open>extractType\<close> does not read.
\<close>

theorem job_type_rules_counterexample:
  "claimed_job_type \<lparr>gh_title = Some ''Architect'',
                      gh_metadata = Some [\<lparr>meta_name = Some ''Job Type'', meta_value = JNull\<rparr>],
                      gh_departments = None, gh_updated_at = None, gh_absolute_url = None\<rparr> = JNull
   \<and> extractType \<lparr>gh_title = Some ''Architect'',
                   gh_metadata = Some [\<lparr>meta_name = Some ''Job Type'', meta_value = JNull\<rparr>],
                   gh_departments = None, gh_updated_at = None, gh_absolute_url = None\<rparr> = JStr ''Full-time''
   \<and> claimed_job_type \<lparr>gh_title = Some ''Architect'', gh_metadata = None,
                        gh_departments = Some [\<lparr>dept_name = Some ''Studio''\<rparr>,
                                               \<lparr>dept_name = Some ''Internships''\<rparr>],
                        gh_updated_at = None, gh_absolute_url = None\<rparr> = JStr ''Internship''
   \<and> extractType \<lparr>gh_title = Some ''Architect'', gh_metadata = None,
                   gh_departments = Some [\<lparr>dept_name = Some ''Studio''\<rparr>,
                                          \<lparr>dept_name = Some ''Internships''\<rparr>],
                   gh_updated_at = None, gh_absolute_url = None\<rparr> = JStr ''Full-time''"
  by (intro conjI; code_simp)

lemma gh_job_of_clock: "without_posted (gh_job_of w n1 j) = without_posted (gh_job_of w n2 j)"
  by (simp add: without_posted_def gh_job_of_def)

lemma lv_job_of_clock: "without_posted (lv_job_of n1 j) = without_posted (lv_job_of n2 j)"
  by (simp add: without_posted_def lv_job_of_def)

lemma jsearch_job_of_clock:
  "without_posted (jsearch_job_of w n1 j) = without_posted (jsearch_job_of w n2 j)"
  by (simp add: without_posted_def jsearch_job_of_def)

lemma lv_posted_clock: "(lv_posted n1 j = None) = (lv_posted n2 j = None)"
  by (simp add: lv_posted_def split: option.splits)

lemma fetchGreenhouseJobs_clock:
  "map without_posted (fetchGreenhouseJobs w n1 s) = map without_posted (fetchGreenhouseJobs w n2 s)"
proof -
  have "\<And>js. map without_posted (map (gh_job_of w n1) js) = map without_posted (map (gh_job_of w n2) js)"
    by (simp add: gh_job_of_clock [of w n1 _ n2])
  then show ?thesis
    by (simp add: fetchGreenhouseJobs_def split: fetch_outcome.splits decoded.splits)
qed

lemma fetchLeverJobs_clock:
  "map without_posted (fetchLeverJobs w n1 s) = map without_posted (fetchLeverJobs w n2 s)"
proof -
  have m: "\<And>js. map without_posted (map (lv_job_of n1) js) = map without_posted (map (lv_job_of n2) js)"
    by (simp add: lv_job_of_clock [of n1 _ n2])
  have a: "\<And>js. list_all (\<lambda>j. lv_posted n1 j \<noteq> None) js = list_all (\<lambda>j. lv_posted n2 j \<noteq> None) js"
    by (simp add: lv_posted_clock [of n1 _ n2] del: not_None_eq)
  show ?thesis
    by (simp add: fetchLeverJobs_def a lv_job_of_clock [of n1 _ n2] del: not_None_eq
        split: fetch_outcome.splits decoded.splits)
qed

lemma provider_passes_clock:
  "map firm_without_posted (provider_passes w n1 base) = map firm_without_posted (provider_passes w n2 base)"
  by (simp add: provider_passes_map firm_without_posted_def comp_def
      fetchGreenhouseJobs_clock [of w n1 _ n2] fetchLeverJobs_clock [of w n1 _ n2])

lemma props_firm_without_posted: "props (firm_without_posted f) = props f"
  by (simp add: firm_without_posted_def)

lemma map_props_of_clockless:
  assumes "map firm_without_posted fs1 = map firm_without_posted fs2"
  shows "map props fs1 = map props fs2"
proof -
  have "map props (map firm_without_posted fs1) = map props (map firm_without_posted fs2)"
    using assms by simp
  then show ?thesis by (simp add: comp_def props_firm_without_posted)
qed

lemma build_index_props:
  "map props fs1 = map props fs2 \<Longrightarrow> build_index fs1 i m = build_index fs2 i m"
proof (induction fs1 arbitrary: fs2 i m)
  case Nil
  then show ?case by simp
next
  case (Cons f fs1)
  then obtain g gs where fs2: "fs2 = g # gs" by (cases fs2) auto
  with Cons.prems have pg: "props f = props g" and rest: "map props fs1 = map props gs" by simp_all
  have "build_index (f # fs1) i m =
      (case normalize (obj_get (props g) ''name'') of
         Inl e \<Rightarrow> Inl e
       | Inr k \<Rightarrow> build_index fs1 (Suc i) (m(k \<mapsto> i)))"
    by (simp add: pg)
  also have "\<dots> =
      (case normalize (obj_get (props g) ''name'') of
         Inl e \<Rightarrow> Inl e
       | Inr k \<Rightarrow> build_index gs (Suc i) (m(k \<mapsto> i)))"
    by (simp only: Cons.IH [OF rest])
  also have "\<dots> = build_index fs2 i m"
    by (simp add: fs2)
  finally show ?case .
qed

lemma match_jobs_clock:
  "map (\<lambda>m. (fst m, without_posted (snd m))) (fst (match_jobs w n1 idx raw))
     = map (\<lambda>m. (fst m, without_posted (snd m))) (fst (match_jobs w n2 idx raw))"
proof (induction raw)
  case Nil
  then show ?case by simp
next
  case (Cons j raw)
  then show ?case
    by (simp add: Let_def split_beta jsearch_job_of_clock [of w n1 _ n2] split: option.splits)
qed

lemma title_without_posted: "title (without_posted j) = title j"
  by (simp add: without_posted_def)

lemma list_ex_title:
  "list_ex (\<lambda>j. title j = t) js = (t \<in> set (map title (map without_posted js)))"
  by (auto simp: list_ex_iff title_without_posted)

lemma add_matched_clock:
  assumes fs: "map firm_without_posted fs1 = map firm_without_posted fs2"
    and i: "fst m1 = fst m2"
    and j: "without_posted (snd m1) = without_posted (snd m2)"
  shows "map firm_without_posted (add_matched m1 fs1) = map firm_without_posted (add_matched m2 fs2)"
proof -
  from fs have len: "length fs1 = length fs2" by (rule map_eq_imp_length_eq)
  have t: "title (snd m1) = title (snd m2)"
    using j title_without_posted [of "snd m1"] title_without_posted [of "snd m2"] by simp
  show ?thesis
  proof (cases "fst m1 < length fs1")
    case False
    then have "add_matched m1 fs1 = fs1" "add_matched m2 fs2 = fs2"
      using len i by (simp_all add: add_matched_eq list_update_beyond linorder_not_less)
    with fs show ?thesis by simp
  next
    case True
    from fs True have nth: "firm_without_posted (fs1 ! fst m1) = firm_without_posted (fs2 ! fst m1)"
      using len by (metis nth_map)
    then have js: "map without_posted (jobs (fs1 ! fst m1)) = map without_posted (jobs (fs2 ! fst m1))"
      by (simp add: firm_without_posted_def) (metis firm.select_convs(2) firm.update_convs(2) firm.surjective)
    have ex: "list_ex (\<lambda>j. title j = title (snd m1)) (jobs (fs1 ! fst m1))
            = list_ex (\<lambda>j. title j = title (snd m2)) (jobs (fs2 ! fst m2))"
      by (simp only: list_ex_title js t i [symmetric])
    show ?thesis
    proof (cases "list_ex (\<lambda>j. title j = title (snd m1)) (jobs (fs1 ! fst m1))")
      case True
      with ex show ?thesis by (simp add: add_matched_eq fs)
    next
      case False
      have upd: "\<And>f x. firm_without_posted (f\<lparr>jobs := jobs f @ [x]\<rparr>)
                = (firm_without_posted f)\<lparr>jobs := jobs (firm_without_posted f) @ [without_posted x]\<rparr>"
        by (simp add: firm_without_posted_def)
      from False ex have
        "add_matched m1 fs1 = fs1[fst m1 := (fs1 ! fst m1)\<lparr>jobs := jobs (fs1 ! fst m1) @ [snd m1]\<rparr>]"
        "add_matched m2 fs2 = fs2[fst m1 := (fs2 ! fst m1)\<lparr>jobs := jobs (fs2 ! fst m1) @ [snd m2]\<rparr>]"
        using i by (simp_all add: add_matched_eq)
      then show ?thesis
        by (simp add: map_update upd nth j fs)
    qed
  qed
qed

lemma fold_add_matched_clock:
  assumes "map (\<lambda>m. (fst m, without_posted (snd m))) ms1 = map (\<lambda>m. (fst m, without_posted (snd m))) ms2"
    and "map firm_without_posted fs1 = map firm_without_posted fs2"
  shows "map firm_without_posted (fold add_matched ms1 fs1)
       = map firm_without_posted (fold add_matched ms2 fs2)"
  using assms
proof (induction ms1 arbitrary: ms2 fs1 fs2)
  case Nil
  then show ?case by simp
next
  case (Cons m ms1)
  then obtain m' ms2' where ms2: "ms2 = m' # ms2'" by (cases ms2) auto
  with Cons.prems(1) have hd: "fst m = fst m'" "without_posted (snd m) = without_posted (snd m')"
    and tl: "map (\<lambda>m. (fst m, without_posted (snd m))) ms1 = map (\<lambda>m. (fst m, without_posted (snd m))) ms2'"
    by simp_all
  have step: "map firm_without_posted (add_matched m fs1) = map firm_without_posted (add_matched m' fs2)"
    by (rule add_matched_clock [OF Cons.prems(2) hd])
  show ?case
    using Cons.IH [OF tl step] by (simp add: ms2)
qed

lemma main_final_firms:
  assumes "main w key_env now fs = Inr fs'"
  shows "firms_base fs' = firms_base fs
       \<and> (\<exists>ms. output_file fs' = Some \<lparr>indent = 0, content = JArr (map output_record
                   (fold add_matched ms (provider_passes w now (firms_base fs))))\<rparr>
             \<and> (if fetchJSearchJobs w (str_or key_env []) = [] then ms = []
                 else \<exists>idx. build_index (provider_passes w now (firms_base fs)) 0 Map.empty = Inr idx
                        \<and> ms = fst (match_jobs w now idx (fetchJSearchJobs w (str_or key_env [])))))"
proof (cases "fetchJSearchJobs w (str_or key_env []) = []")
  case True
  with assms have "fs' = write_output (provider_passes w now (firms_base fs)) fs"
    by (simp add: main_eq)
  with True show ?thesis
    by (intro conjI exI [of _ "[]"]) (simp_all add: write_output_def)
next
  case False
  show ?thesis
  proof (cases "build_index (provider_passes w now (firms_base fs)) 0 Map.empty")
    case (Inl e)
    with assms False show ?thesis
      by (simp add: main_eq matchJSearchToFirms_def)
  next
    case (Inr idx)
    obtain matched unmatched where
      mj: "match_jobs w now idx (fetchJSearchJobs w (str_or key_env [])) = (matched, unmatched)"
      by (cases "match_jobs w now idx (fetchJSearchJobs w (str_or key_env []))")
    from assms False Inr mj
    have fs': "fs' = write_output (fold add_matched matched (provider_passes w now (firms_base fs)))
                   (if unmatched = [] then fs else write_discoveries unmatched fs)"
      by (simp add: main_eq matchJSearchToFirms_def)
    have base: "firms_base fs' = firms_base fs"
      by (simp add: fs' write_output_def write_discoveries_def)
    have out: "output_file fs' = Some \<lparr>indent = 0, content = JArr (map output_record
                   (fold add_matched matched (provider_passes w now (firms_base fs))))\<rparr>"
      by (simp add: fs' write_output_def)
    have "matched = fst (match_jobs w now idx (fetchJSearchJobs w (str_or key_env [])))"
      by (simp add: mj)
    with base out False Inr show ?thesis
      by (intro conjI exI [of _ matched]) simp_all
  qed
qed

lemma clockless_nth:
  assumes "map firm_without_posted fs1 = map firm_without_posted fs2"
  shows "length fs1 = length fs2
       \<and> (\<forall>i < length fs1. props (fs1 ! i) = props (fs2 ! i)
            \<and> map without_posted (jobs (fs1 ! i)) = map without_posted (jobs (fs2 ! i)))"
proof (intro conjI allI impI)
  show len: "length fs1 = length fs2" using assms by (rule map_eq_imp_length_eq)
  fix i assume i: "i < length fs1"
  have "map firm_without_posted fs1 ! i = map firm_without_posted fs2 ! i"
    using assms by simp
  with i len have eq: "firm_without_posted (fs1 ! i) = firm_without_posted (fs2 ! i)"
    by simp
  have "props (firm_without_posted (fs1 ! i)) = props (firm_without_posted (fs2 ! i))"
    by (simp only: eq)
  then show "props (fs1 ! i) = props (fs2 ! i)"
    by (simp add: props_firm_without_posted)
  have "jobs (firm_without_posted (fs1 ! i)) = jobs (firm_without_posted (fs2 ! i))"
    by (simp only: eq)
  then show "map without_posted (jobs (fs1 ! i)) = map without_posted (jobs (fs2 ! i))"
    by (simp add: firm_without_posted_def)
qed

lemma final_firms_clock:
  assumes r1: "main w key_env now1 fs = Inr fs1" and r2: "main w key_env now2 fs1 = Inr fs2"
  shows "\<exists>firms1 firms2.
           output_file fs1 = Some \<lparr>indent = 0, content = JArr (map output_record firms1)\<rparr>
         \<and> output_file fs2 = Some \<lparr>indent = 0, content = JArr (map output_record firms2)\<rparr>
         \<and> map firm_without_posted firms1 = map firm_without_posted firms2
         \<and> (now1 = now2 \<longrightarrow> firms2 = firms1)"
proof -
  let ?raw = "fetchJSearchJobs w (str_or key_env [])"
  let ?pp1 = "provider_passes w now1 (firms_base fs)"
  let ?pp2 = "provider_passes w now2 (firms_base fs)"
  from main_final_firms [OF r1] obtain ms1 where
    base: "firms_base fs1 = firms_base fs" and
    out1: "output_file fs1 = Some \<lparr>indent = 0, content = JArr (map output_record (fold add_matched ms1 ?pp1))\<rparr>" and
    ms1: "if ?raw = [] then ms1 = []
          else \<exists>idx. build_index ?pp1 0 Map.empty = Inr idx \<and> ms1 = fst (match_jobs w now1 idx ?raw)"
    by blast
  from main_final_firms [OF r2, unfolded base] obtain ms2 where
    out2: "output_file fs2 = Some \<lparr>indent = 0, content = JArr (map output_record (fold add_matched ms2 ?pp2))\<rparr>" and
    ms2: "if ?raw = [] then ms2 = []
          else \<exists>idx. build_index ?pp2 0 Map.empty = Inr idx \<and> ms2 = fst (match_jobs w now2 idx ?raw)"
    by blast
  have pp: "map firm_without_posted ?pp1 = map firm_without_posted ?pp2"
    by (rule provider_passes_clock)
  have idx: "build_index ?pp1 0 Map.empty = build_index ?pp2 0 Map.empty"
    by (rule build_index_props [OF map_props_of_clockless [OF pp]])
  have ms: "map (\<lambda>m. (fst m, without_posted (snd m))) ms1 = map (\<lambda>m. (fst m, without_posted (snd m))) ms2"
  proof (cases "?raw = []")
    case True
    with ms1 ms2 show ?thesis by simp
  next
    case False
    with ms1 obtain i1 where i1: "build_index ?pp1 0 Map.empty = Inr i1" "ms1 = fst (match_jobs w now1 i1 ?raw)"
      by auto
    from False ms2 obtain i2 where i2: "build_index ?pp2 0 Map.empty = Inr i2" "ms2 = fst (match_jobs w now2 i2 ?raw)"
      by auto
    from i1(1) i2(1) idx have "i1 = i2" by simp
    with i1(2) i2(2) show ?thesis by (simp add: match_jobs_clock [of w now1 i2 ?raw now2])
  qed
  have rel: "map firm_without_posted (fold add_matched ms1 ?pp1) = map firm_without_posted (fold add_matched ms2 ?pp2)"
    by (rule fold_add_matched_clock [OF ms pp])
  have same: "now1 = now2 \<longrightarrow> fold add_matched ms2 ?pp2 = fold add_matched ms1 ?pp1"
  proof
    assume eq: "now1 = now2"
    have "ms1 = ms2"
    proof (cases "?raw = []")
      case True
      with ms1 ms2 show ?thesis by simp
    next
      case False
      with ms1 ms2 eq show ?thesis by auto
    qed
    with eq show "fold add_matched ms2 ?pp2 = fold add_matched ms1 ?pp1" by simp
  qed
  from out1 out2 rel same show ?thesis by blast
qed

text \<open>
  Claim C2, as the code has it. Two runs in succession, on the files the first run
  left, with the same responses: the firm database is unchanged, both outputs are
  written from firm lists of the same length with the same properties, and each firm's
  jobs agree one by one in title, type, salary and url, so that nothing accumulates.
  The \<^verbatim>\<open>posted\<close> text is relative to the clock of the run; when both runs read the
  same clock value the two outputs are equal.
\<close>

theorem rerun_agrees:
  assumes "main w key_env now1 fs = Inr fs1" and "main w key_env now2 fs1 = Inr fs2"
  shows "firms_base fs1 = firms_base fs \<and> firms_base fs2 = firms_base fs
       \<and> (\<exists>firms1 firms2.
           output_file fs1 = Some \<lparr>indent = 0, content = JArr (map output_record firms1)\<rparr>
         \<and> output_file fs2 = Some \<lparr>indent = 0, content = JArr (map output_record firms2)\<rparr>
         \<and> length firms1 = length firms2
         \<and> (\<forall>i < length firms1.
               props (firms1 ! i) = props (firms2 ! i)
               \<and> map without_posted (jobs (firms1 ! i)) = map without_posted (jobs (firms2 ! i)))
         \<and> (now1 = now2 \<longrightarrow> output_file fs2 = output_file fs1))"
proof -
  from final_firms_clock [OF assms] obtain firms1 firms2 where
    o1: "output_file fs1 = Some \<lparr>indent = 0, content = JArr (map output_record firms1)\<rparr>" and
    o2: "output_file fs2 = Some \<lparr>indent = 0, content = JArr (map output_record firms2)\<rparr>" and
    rel: "map firm_without_posted firms1 = map firm_without_posted firms2" and
    same: "now1 = now2 \<longrightarrow> firms2 = firms1"
    by blast
  note N = clockless_nth [OF rel]
  have b1: "firms_base fs1 = firms_base fs"
    using main_final_firms [OF assms(1)] by (rule conjunct1)
  have "firms_base fs2 = firms_base fs1"
    using main_final_firms [OF assms(2)] by (rule conjunct1)
  with b1 have b2: "firms_base fs2 = firms_base fs" by simp
  have "now1 = now2 \<longrightarrow> output_file fs2 = output_file fs1"
    using same o1 o2 by simp
  with o1 o2 N have "\<exists>firms1 firms2.
           output_file fs1 = Some \<lparr>indent = 0, content = JArr (map output_record firms1)\<rparr>
         \<and> output_file fs2 = Some \<lparr>indent = 0, content = JArr (map output_record firms2)\<rparr>
         \<and> length firms1 = length firms2
         \<and> (\<forall>i < length firms1.
               props (firms1 ! i) = props (firms2 ! i)
               \<and> map without_posted (jobs (firms1 ! i)) = map without_posted (jobs (firms2 ! i)))
         \<and> (now1 = now2 \<longrightarrow> output_file fs2 = output_file fs1)"
    by blast
  with b1 b2 show ?thesis by (intro conjI)
qed

text \<open>The example run, half a minute before the Greenhouse posting is one day old,
  and a second run one minute later: the job is posted \<open>Today\<close> in the first output
  and \<open>1 day ago\<close> in the second.\<close>

theorem rerun_agrees_witness:
  "main example_world (Some ''key'') 1704153570000 example_files = Inr (example_after ''Today'')
   \<and> main example_world (Some ''key'') 1704153630000 (example_after ''Today'')
       = Inr (example_after ''1 day ago'')
   \<and> firms_base (example_after ''Today'') = firms_base example_files
   \<and> firms_base (example_after ''1 day ago'') = firms_base example_files
   \<and> (\<exists>firms1 firms2.
           output_file (example_after ''Today'')
             = Some \<lparr>indent = 0, content = JArr (map output_record firms1)\<rparr>
         \<and> output_file (example_after ''1 day ago'')
             = Some \<lparr>indent = 0, content = JArr (map output_record firms2)\<rparr>
         \<and> length firms1 = length firms2
         \<and> (\<forall>i < length firms1.
               props (firms1 ! i) = props (firms2 ! i)
               \<and> map without_posted (jobs (firms1 ! i)) = map without_posted (jobs (firms2 ! i)))
         \<and> ((1704153570000::int) = 1704153630000
              \<longrightarrow> output_file (example_after ''1 day ago'') = output_file (example_after ''Today'')))"
  by (rule conjI [OF example_run conjI [OF example_rerun rerun_agrees [OF example_run example_rerun]]])

text \<open>
  The claim as the specification words it: two runs in succession on unchanged input and
  identical responses give set-equal job lists per firm. The two runs of the example,
  one minute apart, differ in the clock only, and the job sets of the first firm differ.
\<close>

theorem rerun_counterexample:
  "main example_world (Some ''key'') 1704153570000 example_files = Inr (example_after ''Today'')
   \<and> main example_world (Some ''key'') 1704153630000 (example_after ''Today'') = Inr (example_after ''1 day ago'')
   \<and> map set (output_jobs (example_after ''Today'')) \<noteq> map set (output_jobs (example_after ''1 day ago''))"
  by (intro conjI example_run example_rerun example_job_sets)

end
